theory Spec2Isabelle
  imports Complex_Main "HOL-Library.List_Lexorder" "HOL-Library.Char_ord"
begin

section \<open>Scope\<close>

text \<open>
  A model of \<^verbatim>\<open>moss/glm.py\<close>: the HRF models, the event encoder, the resampler, the
  highpass filter matrix, the component validator and the constructor of
  \<^verbatim>\<open>DesignMatrix\<close> with its submatrix views. Floats are real numbers, arrays are lists, a
  table is a record of its index, labels and columns. Plotting and file export are left
  out.
\<close>

section \<open>Outcomes of the Python code\<close>

text \<open>
  Every \<^verbatim>\<open>raise\<close> of \<^verbatim>\<open>moss/glm.py\<close> and every exception of the numpy, scipy and pandas
  calls it makes is a value of \<open>failure\<close>, named after the Python exception class.
  \<open>NonFinite\<close> is not an exception: it stands for a float array holding \<^verbatim>\<open>nan\<close> or
  \<^verbatim>\<open>inf\<close> after a numpy division by zero, for which there is no real-valued result. The
  model stops where such a value arises, while Python would carry it on.
\<close>

datatype failure =
    ValueError | IndexError | KeyError | TypeError | AttributeError | NotImplementedError |
    ZeroDivisionError | NonFinite

section \<open>numpy operations used by the event encoder\<close>

text \<open>
  \<^verbatim>\<open>np.searchsorted(a, v)\<close> (side \<^verbatim>\<open>left\<close>) is numpy's binary search: it never fails, and
  on an ascending array it returns the number of entries below \<open>v\<close>.
\<close>

function searchsorted_loop :: "real list \<Rightarrow> real \<Rightarrow> nat \<Rightarrow> nat \<Rightarrow> nat" where
  "searchsorted_loop a v lo hi =
     (if lo < hi
      then (if a ! (lo + (hi - lo) div 2) < v
            then searchsorted_loop a v (lo + (hi - lo) div 2 + 1) hi
            else searchsorted_loop a v lo (lo + (hi - lo) div 2))
      else lo)"
  by pat_completeness auto
termination
  by (relation "measure (\<lambda>(a, v, lo, hi). hi - lo)") auto

declare searchsorted_loop.simps [simp del]

definition searchsorted :: "real list \<Rightarrow> real \<Rightarrow> nat" where
  "searchsorted a v = searchsorted_loop a v 0 (length a)"

text \<open>
  An integer index into an array of length \<open>n\<close>: negative indices count from the end,
  anything outside \<open>-n .. n-1\<close> raises \<^verbatim>\<open>IndexError\<close>.
\<close>

definition norm_index :: "nat \<Rightarrow> int \<Rightarrow> failure + nat" where
  "norm_index n i =
     (let j = (if i < 0 then int n + i else i)
      in if 0 \<le> j \<and> j < int n then Inr (nat j) else Inl IndexError)"

fun norm_indices :: "nat \<Rightarrow> int list \<Rightarrow> failure + nat list" where
  "norm_indices n [] = Inr []"
| "norm_indices n (i # is) =
     (case norm_index n i of
        Inl e \<Rightarrow> Inl e
      | Inr j \<Rightarrow> (case norm_indices n is of Inl e \<Rightarrow> Inl e | Inr js \<Rightarrow> Inr (j # js)))"

text \<open>
  \<^verbatim>\<open>ev[idx] = xs\<close> with an index array: the assignments happen in order, so with a
  repeated index the last one stays.
\<close>

fun scatter :: "real list \<Rightarrow> nat list \<Rightarrow> real list \<Rightarrow> real list" where
  "scatter ev (j # js) (x # xs) = scatter (ev[j := x]) js xs"
| "scatter ev _ _ = ev"

text \<open>
  \<^verbatim>\<open>ev[idx] += vals\<close> and \<^verbatim>\<open>ev[idx] -= vals\<close>: numpy reads \<^verbatim>\<open>ev[idx]\<close>, combines it with
  \<^verbatim>\<open>vals\<close> and assigns the result back through the same index array.
\<close>

definition iadd_at :: "real list \<Rightarrow> int list \<Rightarrow> real list \<Rightarrow> failure + real list" where
  "iadd_at ev idx vals =
     (case norm_indices (length ev) idx of
        Inl e \<Rightarrow> Inl e
      | Inr js \<Rightarrow> Inr (scatter ev js (map2 (+) (map (nth ev) js) vals)))"

definition isub_at :: "real list \<Rightarrow> int list \<Rightarrow> real list \<Rightarrow> failure + real list" where
  "isub_at ev idx vals =
     (case norm_indices (length ev) idx of
        Inl e \<Rightarrow> Inl e
      | Inr js \<Rightarrow> Inr (scatter ev js (map2 (-) (map (nth ev) js) vals)))"

fun cumsum_from :: "real \<Rightarrow> real list \<Rightarrow> real list" where
  "cumsum_from acc [] = []"
| "cumsum_from acc (x # xs) = (acc + x) # cumsum_from (acc + x) xs"

definition cumsum :: "real list \<Rightarrow> real list" where
  "cumsum xs = cumsum_from 0 xs"

section \<open>The event encoder: \<^verbatim>\<open>DesignMatrix._make_hires_ev_base\<close>\<close>

text \<open>
  \<open>info\<close> holds the rows \<open>(onset, duration, value)\<close> of one condition, \<open>hft\<close> is the
  hires grid \<^verbatim>\<open>self._hires_frametimes\<close>. The clamp \<^verbatim>\<open>tmax - 1\<close> is computed on
  integers, so on an empty grid it is \<open>-1\<close>.
\<close>

definition make_hires_ev_base :: "real list \<Rightarrow> (real \<times> real \<times> real) list \<Rightarrow> failure + real list" where
  "make_hires_ev_base hft info =
     (let onsets = map fst info;
          durations = map (fst \<circ> snd) info;
          vals = map (snd \<circ> snd) info;
          tmax = int (length hft);
          ev = replicate (length hft) 0;
          t_onset = map (\<lambda>on. min (int (searchsorted hft on)) (tmax - 1)) onsets
      in case iadd_at ev t_onset vals of
           Inl e \<Rightarrow> Inl e
         | Inr ev1 \<Rightarrow>
            (let t_offset0 = map2 (\<lambda>on d. min (int (searchsorted hft (on + d)))
                                              (int (length hft) - 1)) onsets durations;
                 t_offset = map2 (\<lambda>off on_i. if off < tmax - 1 \<and> off = on_i then off + 1 else off)
                              t_offset0 t_onset
             in case isub_at ev1 t_offset vals of
                  Inl e \<Rightarrow> Inl e
                | Inr ev2 \<Rightarrow> Inr (cumsum ev2)))"

section \<open>Tables\<close>

text \<open>
  A pandas \<^verbatim>\<open>DataFrame\<close> of floats: the row index, the column labels and one list of
  values per column. A label is a string or an integer (the default labels of a table
  built without names). Labels are handled as pandas handles pairwise distinct labels.
\<close>

datatype label = StrL string | IntL int

record frame =
  index :: "real list"
  columns :: "label list"
  data :: "real list list"

definition get_column :: "frame \<Rightarrow> label \<Rightarrow> failure + real list" where
  "get_column fr key =
     (case map_of (zip (columns fr) (data fr)) key of
        None \<Rightarrow> Inl KeyError
      | Some c \<Rightarrow> Inr c)"

text \<open>\<^verbatim>\<open>fr[key] = vals\<close>: an existing column is replaced in place, a new one is appended.\<close>

definition set_column :: "frame \<Rightarrow> label \<Rightarrow> real list \<Rightarrow> frame" where
  "set_column fr key vals =
     (if key \<in> set (columns fr)
      then fr\<lparr>data := map (\<lambda>(l, c). if l = key then vals else c) (zip (columns fr) (data fr))\<rparr>
      else fr\<lparr>columns := columns fr @ [key], data := data fr @ [vals]\<rparr>)"

fun set_columns :: "frame \<Rightarrow> (label \<times> real list) list \<Rightarrow> frame" where
  "set_columns fr [] = fr"
| "set_columns fr ((key, vals) # rest) = set_columns (set_column fr key vals) rest"

text \<open>The first failure of a loop body ends the loop.\<close>

fun collect :: "(failure + 'a) list \<Rightarrow> failure + 'a list" where
  "collect [] = Inr []"
| "collect (r # rs) =
     (case r of
        Inl e \<Rightarrow> Inl e
      | Inr x \<Rightarrow> (case collect rs of Inl e \<Rightarrow> Inl e | Inr xs \<Rightarrow> Inr (x # xs)))"

section \<open>HRF models\<close>

subsection \<open>Object construction\<close>

text \<open>
  What an \<^verbatim>\<open>__init__\<close> body hands back: \<^verbatim>\<open>None\<close> (also when it has no
  \<^verbatim>\<open>return\<close>), or some other object; the only other object returned in this module is
  an exception class.
\<close>

datatype py_value = PyNone | PyExceptionClass failure

text \<open>\<^verbatim>\<open>HRFModel.__init__\<close>: \<^verbatim>\<open>raise NotImplementedError\<close>.\<close>

definition HRFModel_init :: "failure + py_value" where
  "HRFModel_init = Inl NotImplementedError"

text \<open>\<^verbatim>\<open>FIR.__init__\<close>: \<^verbatim>\<open>return NotImplementedError\<close>.\<close>

definition FIR_init :: "failure + py_value" where
  "FIR_init = Inr (PyExceptionClass NotImplementedError)"

text \<open>
  Calling a class runs \<^verbatim>\<open>__init__\<close> on the new object: an exception of the body
  propagates, and Python raises \<^verbatim>\<open>TypeError\<close> when the body returns anything but
  \<^verbatim>\<open>None\<close>.
\<close>

definition construct :: "failure + py_value \<Rightarrow> 'a \<Rightarrow> failure + 'a" where
  "construct init obj =
     (case init of
        Inl e \<Rightarrow> Inl e
      | Inr PyNone \<Rightarrow> Inr obj
      | Inr (PyExceptionClass _) \<Rightarrow> Inl TypeError)"

text \<open>\<^verbatim>\<open>FIR()\<close> and \<^verbatim>\<open>HRFModel()\<close>; neither class has state, so the object is \<open>()\<close>.\<close>

definition FIR_new :: "failure + unit" where
  "FIR_new = construct FIR_init ()"

definition HRFModel_new :: "failure + unit" where
  "HRFModel_new = construct HRFModel_init ()"

subsection \<open>\<^verbatim>\<open>GammaDifferenceHRF\<close>\<close>

text \<open>
  The two frozen \<^verbatim>\<open>scipy.stats.gamma\<close> distributions are kept by their density
  functions. For an integer shape \<open>a \<ge> 1\<close> and a scale \<open>s > 0\<close> the density is
  \<open>gamma_pdf a s\<close>; other shapes need the Gamma function.
\<close>

definition gamma_pdf :: "nat \<Rightarrow> real \<Rightarrow> real \<Rightarrow> real" where
  "gamma_pdf a s x =
     (if x < 0 then 0 else x ^ (a - 1) * exp (- x / s) / (fact (a - 1) * s ^ a))"

record gamma_difference_hrf =
  rv_pos :: "real \<Rightarrow> real"
  rv_neg :: "real \<Rightarrow> real"
  hrf_tr :: real
  hrf_oversampling :: real
  timepoints :: "real list"
  temporal_deriv :: bool
  ratio :: real

text \<open>\<^verbatim>\<open>np.linspace(start, stop, num)\<close> with the end point included.\<close>

definition linspace :: "real \<Rightarrow> real \<Rightarrow> nat \<Rightarrow> real list" where
  "linspace start stop num =
     (if num = 1 then [start]
      else map (\<lambda>i. start + real i * ((stop - start) / real (num - 1))) [0..<num])"

text \<open>
  \<^verbatim>\<open>GammaDifferenceHRF.__init__\<close>. The divisions are Python scalar divisions, which
  raise on a zero divisor; numpy truncates the float sample count and rejects a negative
  one.
\<close>

definition GammaDifferenceHRF_init ::
  "bool \<Rightarrow> real \<Rightarrow> real \<Rightarrow> real \<Rightarrow> (real \<Rightarrow> real) \<Rightarrow> (real \<Rightarrow> real) \<Rightarrow> real
     \<Rightarrow> failure + gamma_difference_hrf" where
  "GammaDifferenceHRF_init temporal_deriv' tr oversampling kernel_secs pos neg ratio' =
     (if oversampling = 0 then Inl ZeroDivisionError
      else let dt = tr / oversampling in
        if dt = 0 then Inl ZeroDivisionError
        else if kernel_secs / dt \<le> - 1 then Inl ValueError
        else Inr \<lparr>rv_pos = pos, rv_neg = neg, hrf_tr = tr, hrf_oversampling = oversampling,
                  timepoints = linspace 0 kernel_secs (nat \<lfloor>kernel_secs / dt\<rfloor>),
                  temporal_deriv = temporal_deriv', ratio = ratio'\<rparr>)"

text \<open>
  Lines 58 to 60 of \<^verbatim>\<open>kernel\<close>: the difference of the two densities over the
  timepoints, divided by its sum. numpy does not raise on a zero sum: the entries become
  \<^verbatim>\<open>nan\<close> or \<^verbatim>\<open>inf\<close>.
\<close>

definition kernel_unnormalized :: "gamma_difference_hrf \<Rightarrow> real list" where
  "kernel_unnormalized h = map (\<lambda>t. rv_pos h t - ratio h * rv_neg h t) (timepoints h)"

definition kernel_main :: "gamma_difference_hrf \<Rightarrow> failure + real list" where
  "kernel_main h =
     (let y = kernel_unnormalized h; s = sum_list y
      in if y \<noteq> [] \<and> s = 0 then Inl NonFinite else Inr (map (\<lambda>v. v / s) y))"

text \<open>\<^verbatim>\<open>np.diff\<close>.\<close>

definition diff :: "real list \<Rightarrow> real list" where
  "diff y = map2 (-) (tl y) (butlast y)"

text \<open>
  \<^verbatim>\<open>kernel\<close>: the channels of the kernel, the main one first. \<^verbatim>\<open>np.c_\<close> raises when
  the two channels differ in length, which happens for an empty kernel.
\<close>

definition kernel :: "gamma_difference_hrf \<Rightarrow> failure + real list list" where
  "kernel h =
     (case kernel_main h of
        Inl e \<Rightarrow> Inl e
      | Inr y \<Rightarrow>
          if temporal_deriv h
          then (let dy = 0 # diff y;
                    ss_y = sum_list (map (\<lambda>v. v * v) y);
                    ss_dy = sum_list (map (\<lambda>v. v * v) dy)
                in if length dy \<noteq> length y then Inl ValueError
                   else if ss_dy = 0 then Inl NonFinite
                   else Inr [y, map (\<lambda>v. v * sqrt (ss_y / ss_dy)) dy])
          else Inr [y])"

text \<open>\<^verbatim>\<open>np.convolve(a, v)\<close> in its default mode \<^verbatim>\<open>full\<close>.\<close>

definition np_convolve :: "real list \<Rightarrow> real list \<Rightarrow> failure + real list" where
  "np_convolve a v =
     (if a = [] \<or> v = [] then Inl ValueError
      else Inr (map (\<lambda>n. \<Sum>m\<leftarrow>[0..<length a].
                            if m \<le> n \<and> n - m < length v then a ! m * v ! (n - m) else 0)
                  [0..<length a + length v - 1]))"

text \<open>
  \<^verbatim>\<open>np.arange(0, stop, step)\<close> on floats: \<open>\<lceil>stop / step\<rceil>\<close> samples; a zero step has no
  length and raises \<^verbatim>\<open>ValueError\<close>.
\<close>

definition arange :: "real \<Rightarrow> real \<Rightarrow> failure + real list" where
  "arange stop step =
     (if step = 0 then Inl ValueError
      else Inr (map (\<lambda>i. real i * step) [0..<nat \<lceil>stop / step\<rceil>]))"

text \<open>
  \<^verbatim>\<open>GammaDifferenceHRF.convolve\<close>. Without frametimes the grid is inferred from the
  sampling of the kernel; without a name a plain array is called \<^verbatim>\<open>event\<close>. Each
  channel is the full convolution cut to the length of the data, and the table
  constructor rejects frametimes of another length.
\<close>

definition GammaDifferenceHRF_convolve ::
  "gamma_difference_hrf \<Rightarrow> real list \<Rightarrow> real list option \<Rightarrow> string option \<Rightarrow> failure + frame" where
  "GammaDifferenceHRF_convolve h dat frametimes name =
     (let ntp = length dat;
          ft = (case frametimes of
                  Some ft \<Rightarrow> Inr ft
                | None \<Rightarrow>
                    if hrf_oversampling h = 0 then Inl ZeroDivisionError
                    else arange (real ntp / hrf_oversampling h * hrf_tr h)
                           (hrf_tr h / hrf_oversampling h));
          nm = (case name of Some nm \<Rightarrow> nm | None \<Rightarrow> ''event'')
      in case ft of
           Inl e \<Rightarrow> Inl e
         | Inr ft \<Rightarrow>
            (case kernel h of
               Inl e \<Rightarrow> Inl e
             | Inr channels \<Rightarrow>
                (case collect (map (np_convolve dat) channels) of
                   Inl e \<Rightarrow> Inl e
                 | Inr outs \<Rightarrow>
                     if length ft \<noteq> ntp then Inl ValueError
                     else Inr \<lparr>index = ft,
                               columns = (if temporal_deriv h
                                          then [StrL nm, StrL (nm @ ''_deriv'')]
                                          else [StrL nm]),
                               data = map (take ntp) outs\<rparr>)))"

text \<open>\<^verbatim>\<open>IdentityHRF.convolve\<close>: the data under its name, on the given frametimes.\<close>

definition IdentityHRF_convolve :: "real list \<Rightarrow> real list \<Rightarrow> string \<Rightarrow> failure + frame" where
  "IdentityHRF_convolve dat frametimes name =
     (if length frametimes \<noteq> length dat then Inl ValueError
      else Inr \<lparr>index = frametimes, columns = [StrL name], data = [dat]\<rparr>)"

text \<open>
  The HRF models that can be constructed: \<^verbatim>\<open>HRFModel\<close> and \<^verbatim>\<open>FIR\<close> have no
  instances. \<open>hrf_convolve\<close> is the call \<^verbatim>\<open>hrf_model.convolve(data, frametimes, name)\<close>
  of \<^verbatim>\<open>DesignMatrix._convolve\<close>.
\<close>

datatype hrf_model = IdentityHRF | GammaDifferenceHRF gamma_difference_hrf

fun hrf_convolve :: "hrf_model \<Rightarrow> real list \<Rightarrow> real list \<Rightarrow> string \<Rightarrow> failure + frame" where
  "hrf_convolve IdentityHRF dat frametimes name = IdentityHRF_convolve dat frametimes name"
| "hrf_convolve (GammaDifferenceHRF h) dat frametimes name =
     GammaDifferenceHRF_convolve h dat (Some frametimes) (Some name)"

section \<open>The resampler: \<^verbatim>\<open>DesignMatrix._subsample_condition_matrix\<close>\<close>

text \<open>
  \<^verbatim>\<open>scipy.interpolate.interp1d(x, y, kind="nearest")\<close> applied to \<open>x_new\<close>, for an
  ascending \<open>x\<close>: it needs as many \<open>y\<close> as \<open>x\<close> and at least one sample, raises
  \<^verbatim>\<open>ValueError\<close> for a point outside \<open>[x[0], x[-1]]\<close>, and otherwise picks the sample
  whose cell, bounded by the midpoints between neighbours, holds the point.
\<close>

definition interp1d_nearest :: "real list \<Rightarrow> real list \<Rightarrow> real list \<Rightarrow> failure + real list" where
  "interp1d_nearest x y x_new =
     (if length x \<noteq> length y \<or> x = [] then Inl ValueError
      else if list_ex (\<lambda>t. t < hd x \<or> last x < t) x_new then Inl ValueError
      else (let x_bds = map2 (\<lambda>a b. (a + b) / 2) (tl x) (butlast x)
            in Inr (map (\<lambda>t. y ! min (searchsorted x_bds t) (length x - 1)) x_new)))"

text \<open>
  Every column of the hires table is sampled at the midpoint \<open>t + tr / 2\<close> of each
  acquisition frame.
\<close>

definition subsample_condition_matrix ::
  "frame \<Rightarrow> real list \<Rightarrow> real list \<Rightarrow> real \<Rightarrow> failure + frame" where
  "subsample_condition_matrix hires_conditions hft frametimes tr =
     (let frametime_midpoints = map (\<lambda>t. t + tr / 2) frametimes
      in case collect (map (\<lambda>vals. interp1d_nearest hft vals frametime_midpoints)
                         (data hires_conditions)) of
           Inl e \<Rightarrow> Inl e
         | Inr cs \<Rightarrow> Inr \<lparr>index = frametimes, columns = columns hires_conditions, data = cs\<rparr>)"

section \<open>The component validator: \<^verbatim>\<open>DesignMatrix._validate_component\<close>\<close>

text \<open>
  A component is a 2-D array (its row count and its columns) or a table. An array with
  no columns still has a row count.
\<close>

record ndarray2 =
  nrows :: nat
  acols :: "real list list"

datatype component = Array ndarray2 | Table frame

text \<open>The decimal digits that \<^verbatim>\<open>"%d" % i\<close> prints for \<open>i \<ge> 0\<close>.\<close>

fun digits :: "nat \<Rightarrow> string" where
  "digits n =
     (if n < 10 then [''0123456789'' ! n]
      else digits (n div 10) @ [''0123456789'' ! (n mod 10)])"

declare digits.simps [simp del]

text \<open>\<^verbatim>\<open>pd.Series([name_base + "_%d"] * n) % range(n)\<close>.\<close>

definition default_names :: "string \<Rightarrow> nat \<Rightarrow> label list" where
  "default_names name_base n = map (\<lambda>i. StrL (name_base @ ''_'' @ digits i)) [0..<n]"

text \<open>
  An array becomes a table on the frametimes under default names; the pandas
  constructor raises \<^verbatim>\<open>ValueError\<close> when the row count is not the number of frametimes.
  A table keeps its labels unless they are exactly \<open>0, \<dots>, n - 1\<close>. Comparing the index
  of a table with frametimes of another length raises \<^verbatim>\<open>ValueError\<close> in pandas; with
  equal lengths the index has to be the frametimes or the positions \<open>0, \<dots>, len - 1\<close>, or
  line 403 raises \<^verbatim>\<open>ValueError\<close>.
\<close>

definition validate_component ::
  "real list \<Rightarrow> component option \<Rightarrow> string \<Rightarrow> failure + frame option" where
  "validate_component frametimes comp' name_base =
     (case comp' of
        None \<Rightarrow> Inr None
      | Some c \<Rightarrow>
         (let made = (case c of
                        Table f \<Rightarrow> Inr (columns f, f)
                      | Array a \<Rightarrow>
                          if nrows a \<noteq> length frametimes then Inl ValueError
                          else (let names = default_names name_base (length (acols a))
                                in Inr (names, \<lparr>index = frametimes, columns = names,
                                                 data = acols a\<rparr>)))
          in case made of
               Inl e \<Rightarrow> Inl e
             | Inr (names, fr) \<Rightarrow>
                (let n = length (data fr);
                     fr1 = (if names = map (\<lambda>i. IntL (int i)) [0..<n]
                            then fr\<lparr>columns := default_names name_base n\<rparr>
                            else fr)
                 in if length (index fr1) \<noteq> length frametimes then Inl ValueError
                    else (let frametimes_match =
                                (index fr1 = frametimes \<or>
                                 index fr1 = map real [0..<length (index fr1)])
                          in if \<not> frametimes_match then Inl ValueError
                             else Inr (Some (fr1\<lparr>index := frametimes\<rparr>))))))"

section \<open>The highpass filter: \<^verbatim>\<open>fsl_highpass_matrix\<close>\<close>

text \<open>
  Matrices are lists of rows. \<open>mat_mul\<close> and \<open>mat_vec\<close> are \<^verbatim>\<open>np.dot\<close> on shapes that
  fit, which is how the filter calls it throughout.
\<close>

definition dot :: "real list \<Rightarrow> real list \<Rightarrow> real" where
  "dot u v = sum_list (map2 (*) u v)"

definition mat_column :: "real list list \<Rightarrow> nat \<Rightarrow> real list" where
  "mat_column B j = map (\<lambda>r. r ! j) B"

definition ncols :: "real list list \<Rightarrow> nat" where
  "ncols B = (case B of [] \<Rightarrow> 0 | r # _ \<Rightarrow> length r)"

definition mat_mul :: "real list list \<Rightarrow> real list list \<Rightarrow> real list list" where
  "mat_mul A B = map (\<lambda>r. map (\<lambda>j. dot r (mat_column B j)) [0..<ncols B]) A"

definition mat_vec :: "real list list \<Rightarrow> real list \<Rightarrow> real list" where
  "mat_vec A v = map (\<lambda>r. dot r v) A"

definition mat_sub :: "real list list \<Rightarrow> real list list \<Rightarrow> real list list" where
  "mat_sub A B = map2 (map2 (-)) A B"

definition diag :: "real list \<Rightarrow> real list list" where
  "diag w = map (\<lambda>i. map (\<lambda>j. if i = j then w ! i else 0) [0..<length w]) [0..<length w]"

definition eye :: "nat \<Rightarrow> real list list" where
  "eye n = map (\<lambda>i. map (\<lambda>j. if i = j then 1 else 0) [0..<n]) [0..<n]"

text \<open>\<^verbatim>\<open>scipy.linalg.toeplitz(c)\<close>: the symmetric matrix with entry \<open>c[|i - j|]\<close>.\<close>

definition toeplitz :: "real list \<Rightarrow> real list list" where
  "toeplitz c =
     map (\<lambda>i. map (\<lambda>j. c ! (if j \<le> i then i - j else j - i)) [0..<length c]) [0..<length c]"

text \<open>
  \<^verbatim>\<open>np.linalg.pinv\<close> on a matrix \<open>A\<close> with two columns \<open>a\<close> and \<open>b\<close>, the only shape the
  filter passes: the Moore-Penrose inverse in exact arithmetic, by the rank of \<open>A\<close>. With
  independent columns it is \<open>(A\<^sup>T A)\<^sup>-\<^sup>1 A\<^sup>T\<close>, with rank one it is \<open>A\<^sup>T\<close> over the squared
  Frobenius norm, and it is zero for the zero matrix. The result has two rows.
\<close>

definition pinv :: "real list list \<Rightarrow> real list list" where
  "pinv A =
     (let a = mat_column A 0; b = mat_column A 1;
          g11 = dot a a; g12 = dot a b; g22 = dot b b;
          d = g11 * g22 - g12 * g12
      in if d \<noteq> 0
         then [map2 (\<lambda>x y. (g22 * x - g12 * y) / d) a b,
               map2 (\<lambda>x y. (g11 * y - g12 * x) / d) a b]
         else if g11 + g22 \<noteq> 0
         then [map (\<lambda>x. x / (g11 + g22)) a, map (\<lambda>y. y / (g11 + g22)) b]
         else [map (\<lambda>x. 0) a, map (\<lambda>y. 0) b])"

text \<open>
  \<^verbatim>\<open>fsl_highpass_matrix(ntp, cutoff, tr)\<close>. \<^verbatim>\<open>cutoff / tr\<close> is a Python scalar division.
  With \<open>sig2n = 0\<close> the Gaussian weights are \<^verbatim>\<open>nan\<close> or \<^verbatim>\<open>inf\<close>.
\<close>

definition fsl_highpass_matrix :: "nat \<Rightarrow> real \<Rightarrow> real \<Rightarrow> failure + real list list" where
  "fsl_highpass_matrix ntp' cutoff tr' =
     (if tr' = 0 then Inl ZeroDivisionError
      else (let cutoff1 = cutoff / tr';
                sig2n = (cutoff1 / sqrt 2)\<^sup>2
            in if sig2n = 0 then Inl NonFinite
               else (let kernel0 = map (\<lambda>k. exp (- (real k)\<^sup>2 / (2 * sig2n))) [0..<ntp'];
                         kernel1 = map (\<lambda>x. 1 / sqrt (2 * pi * sig2n) * x) kernel0;
                         K0 = toeplitz kernel1;
                         K = mat_mul (diag (map (\<lambda>r. 1 / sum_list r) K0)) K0;
                         X = map (\<lambda>i. [1, real i]) [0..<ntp'];
                         H = map (\<lambda>k. (let W = diag (K ! k);
                                            hat = mat_mul (mat_mul X (pinv (mat_mul W X))) W
                                        in hat ! k)) [0..<ntp'];
                         F = mat_sub (eye ntp') H
                     in Inr F)))"

text \<open>
  \<^verbatim>\<open>DesignMatrix._highpass_filter\<close>: every column of the table is premultiplied by the
  filter matrix; \<^verbatim>\<open>np.dot\<close> raises when a column has not \<open>ntp\<close> entries.
\<close>

definition highpass_filter :: "nat \<Rightarrow> real \<Rightarrow> frame \<Rightarrow> real \<Rightarrow> failure + frame" where
  "highpass_filter ntp' tr' mat cutoff =
     (case fsl_highpass_matrix ntp' cutoff tr' of
        Inl e \<Rightarrow> Inl e
      | Inr F \<Rightarrow>
          if list_ex (\<lambda>vals. length vals \<noteq> ntp') (data mat) then Inl ValueError
          else Inr (mat\<lparr>data := map (mat_vec F) (data mat)\<rparr>))"

section \<open>The design matrix: \<^verbatim>\<open>DesignMatrix.__init__\<close>\<close>

text \<open>
  The caller's event table: the columns \<^verbatim>\<open>condition\<close> and \<^verbatim>\<open>onset\<close>, and the optional
  columns \<^verbatim>\<open>duration\<close> and \<^verbatim>\<open>value\<close>, one entry per event.
\<close>

record design_table =
  d_condition :: "string list"
  d_onset :: "real list"
  d_duration :: "real list option"
  d_value :: "real list option"

text \<open>
  Lines 213 to 216: a missing \<^verbatim>\<open>duration\<close> column is written into the table as zeros, a
  missing \<^verbatim>\<open>value\<close> column as ones. The table is the caller's object, changed in place.
\<close>

definition fill_defaults :: "design_table \<Rightarrow> design_table" where
  "fill_defaults d =
     (let d1 = (if d_duration d = None
                then d\<lparr>d_duration := Some (replicate (length (d_condition d)) 0)\<rparr> else d)
      in if d_value d1 = None
         then d1\<lparr>d_value := Some (replicate (length (d_condition d1)) 1)\<rparr> else d1)"

text \<open>
  \<^verbatim>\<open>self.design[self.design.condition == cond][["onset", "duration", "value"]]\<close>: the
  rows of one condition; a missing column is a \<^verbatim>\<open>KeyError\<close>.
\<close>

definition cond_info :: "design_table \<Rightarrow> string \<Rightarrow> failure + (real \<times> real \<times> real) list" where
  "cond_info d cond =
     (case (d_duration d, d_value d) of
        (Some durations, Some vals) \<Rightarrow>
          Inr (map snd (filter (\<lambda>(c, row). c = cond)
                 (zip (d_condition d) (zip (d_onset d) (zip durations vals)))))
      | _ \<Rightarrow> Inl KeyError)"

definition and_then :: "failure + 'a \<Rightarrow> ('a \<Rightarrow> failure + 'b) \<Rightarrow> failure + 'b" where
  "and_then r f = (case r of Inl e \<Rightarrow> Inl e | Inr x \<Rightarrow> f x)"

text \<open>\<^verbatim>\<open>DesignMatrix._make_hires_base\<close>: one encoded column per condition name.\<close>

definition make_hires_base :: "design_table \<Rightarrow> real list \<Rightarrow> string list \<Rightarrow> failure + frame" where
  "make_hires_base d hft names =
     and_then (collect (map (\<lambda>cond. and_then (cond_info d cond) (make_hires_ev_base hft)) names))
       (\<lambda>evs. Inr \<lparr>index = hft, columns = map StrL names, data = evs\<rparr>)"

text \<open>
  \<^verbatim>\<open>DesignMatrix._convolve\<close>: starting from a copy of the hires base, the columns that the
  HRF model returns for each condition are written into the table by their labels.
\<close>

fun convolve_loop ::
  "hrf_model \<Rightarrow> frame \<Rightarrow> real list \<Rightarrow> string list \<Rightarrow> frame \<Rightarrow> failure + frame" where
  "convolve_loop hrf base hft [] acc = Inr acc"
| "convolve_loop hrf base hft (cond # conds) acc =
     and_then (get_column base (StrL cond))
       (\<lambda>col. and_then (hrf_convolve hrf col hft cond)
          (\<lambda>res. convolve_loop hrf base hft conds
                   (set_columns acc (zip (columns res) (data res)))))"

definition convolve :: "hrf_model \<Rightarrow> frame \<Rightarrow> real list \<Rightarrow> string list \<Rightarrow> failure + frame" where
  "convolve hrf base hft names = convolve_loop hrf base hft names base"

text \<open>
  Mean-centering, \<^verbatim>\<open>X -= X.mean()\<close>, column by column. The mean of a column without rows
  is \<^verbatim>\<open>nan\<close> in pandas, and is subtracted from nothing.
\<close>

definition mean :: "real list \<Rightarrow> real" where
  "mean xs = sum_list xs / real (length xs)"

definition demean :: "real list \<Rightarrow> real list" where
  "demean xs = map (\<lambda>x. x - mean xs) xs"

definition demean_columns :: "frame \<Rightarrow> frame" where
  "demean_columns fr = fr\<lparr>data := map demean (data fr)\<rparr>"

text \<open>
  Lines 261 to 263: one indicator column per flagged frame, in the order of the frames.
\<close>

definition artifact_columns :: "bool list \<Rightarrow> ndarray2" where
  "artifact_columns artifacts =
     \<lparr>nrows = length artifacts,
      acols = map (\<lambda>i. (replicate (length artifacts) 0)[i := 1])
                (filter (\<lambda>i. artifacts ! i) [0..<length artifacts])\<rparr>"

text \<open>\<^verbatim>\<open>cols.isin(names)\<close>.\<close>

definition isin :: "label list \<Rightarrow> label list \<Rightarrow> bool list" where
  "isin cols names = map (\<lambda>c. c \<in> set names) cols"

text \<open>
  The arguments of \<^verbatim>\<open>DesignMatrix.__init__\<close>. \<^verbatim>\<open>PCA(0.99).fit_transform\<close> of sklearn is
  not part of this module: it is the parameter \<open>pca\<close> of the constructor, a function from
  the validated confounds to a 2-D array or a failure.
\<close>

record design_args =
  arg_design :: design_table
  arg_hrf_model :: hrf_model
  arg_ntp :: nat
  arg_regressors :: "component option"
  arg_confounds :: "component option"
  arg_artifacts :: "bool list option"
  arg_condition_names :: "string list option"
  arg_confound_pca :: bool
  arg_tr :: real
  arg_hpf_cutoff :: "real option"
  arg_oversampling :: real

text \<open>
  The attributes of the constructed object. The peak-to-peak heights and the singular
  values are diagnostics computed from the finished matrix and are left out.
\<close>

record design_matrix_obj =
  design :: design_table
  tr :: real
  frametimes :: "real list"
  hires_frametimes :: "real list"
  condition_names :: "string list"
  ntp :: nat
  hires_base :: frame
  hires_conditions :: frame
  design_matrix :: frame
  full_names :: "label list"
  main_names :: "label list"
  confound_names :: "label list"
  artifact_names :: "label list"
  main_vector :: "bool list"
  condition_vector :: "bool list"
  confound_vector :: "bool list option"
  artifact_vector :: "bool list option"

text \<open>
  Lines 221 to 227: the acquisition grid and the hires grid. \<^verbatim>\<open>tr / oversampling\<close> is a
  Python scalar division.
\<close>

definition make_frametimes :: "nat \<Rightarrow> real \<Rightarrow> real \<Rightarrow> failure + real list \<times> real list" where
  "make_frametimes n t oversampling =
     (let stop = real n * t
      in and_then (arange stop t)
           (\<lambda>ft. if oversampling = 0 then Inl ZeroDivisionError
                 else and_then (arange (if oversampling = 1 then stop + 1 else stop)
                                  (t / oversampling))
                        (\<lambda>hft. Inr (ft, hft))))"

text \<open>Lines 259 to 266: the artifact mask becomes indicator columns, or nothing.\<close>

definition make_artifacts :: "real list \<Rightarrow> bool list option \<Rightarrow> failure + frame option" where
  "make_artifacts ft artifacts =
     (case artifacts of
        None \<Rightarrow> Inr None
      | Some flags \<Rightarrow>
          if list_ex (\<lambda>b. b) flags
          then validate_component ft (Some (Array (artifact_columns flags))) ''artifact''
          else Inr None)"

text \<open>Lines 252 to 256: the optional PCA of the confounds.\<close>

definition apply_pca ::
  "(frame option \<Rightarrow> failure + ndarray2) \<Rightarrow> bool \<Rightarrow> frame option \<Rightarrow> failure + frame option" where
  "apply_pca pca confound_pca confounds =
     (if confound_pca
      then and_then (pca confounds)
             (\<lambda>p. case confounds of
                     None \<Rightarrow> Inl AttributeError
                   | Some cf \<Rightarrow>
                       if nrows p \<noteq> length (index cf) then Inl ValueError
                       else Inr (Some \<lparr>index = index cf,
                                       columns = default_names ''confound'' (length (acols p)),
                                       data = acols p\<rparr>))
      else Inr confounds)"

definition opt_list :: "'a option \<Rightarrow> 'a list" where
  "opt_list x = (case x of None \<Rightarrow> [] | Some y \<Rightarrow> [y])"

definition names_of :: "frame option \<Rightarrow> label list" where
  "names_of x = (case x of None \<Rightarrow> [] | Some fr \<Rightarrow> columns fr)"

text \<open>
  Lines 268 to 281: the pieces side by side, on the acquisition grid, mean-centered. Every
  piece already has the frametimes as its index, so \<^verbatim>\<open>pd.concat\<close> aligns nothing.
\<close>

definition assemble :: "real list \<Rightarrow> frame list \<Rightarrow> frame" where
  "assemble ft pieces =
     demean_columns \<lparr>index = ft, columns = concat (map columns pieces),
                     data = concat (map data pieces)\<rparr>"

text \<open>
  Lines 218 to 309, on the event table \<open>d\<close> that \<open>fill_defaults\<close> left. The name lists
  and the masks are computed from the labels of the assembled matrix.
\<close>

definition DesignMatrix_build ::
  "(frame option \<Rightarrow> failure + ndarray2) \<Rightarrow> design_args \<Rightarrow> design_table
     \<Rightarrow> failure + design_matrix_obj" where
  "DesignMatrix_build pca a d =
     and_then (make_frametimes (arg_ntp a) (arg_tr a) (arg_oversampling a)) (\<lambda>(ft, hft).
     (let names = (case arg_condition_names a of
                     None \<Rightarrow> sort (remdups (d_condition d))
                   | Some ns \<Rightarrow> ns)
      in
     and_then (make_hires_base d hft names) (\<lambda>base.
     and_then (convolve (arg_hrf_model a) base hft names) (\<lambda>hires.
     and_then (subsample_condition_matrix hires hft ft (arg_tr a)) (\<lambda>sub.
     and_then (case arg_hpf_cutoff a of
                 None \<Rightarrow> Inr (demean_columns sub)
               | Some cutoff \<Rightarrow>
                   highpass_filter (arg_ntp a) (arg_tr a) (demean_columns sub) cutoff)
       (\<lambda>conditions.
     and_then (validate_component ft (arg_regressors a) ''regressor'') (\<lambda>regressors.
     and_then (validate_component ft (arg_confounds a) ''confound'') (\<lambda>confounds0.
     and_then (apply_pca pca (arg_confound_pca a) confounds0) (\<lambda>confounds.
     and_then (make_artifacts ft (arg_artifacts a)) (\<lambda>artifacts.
       (let X = assemble ft
                  (conditions # opt_list regressors @ opt_list confounds @ opt_list artifacts);
            main = map StrL names @ names_of regressors;
            conf = names_of confounds;
            art = names_of artifacts;
            cols = columns X
        in Inr \<lparr>design = d, tr = arg_tr a, frametimes = ft, hires_frametimes = hft,
                 condition_names = names, ntp = arg_ntp a, hires_base = base,
                 hires_conditions = hires, design_matrix = X,
                 full_names = cols, main_names = main, confound_names = conf,
                 artifact_names = art,
                 main_vector = isin cols main,
                 condition_vector = isin cols (map StrL names),
                 confound_vector = (case confounds of
                                      None \<Rightarrow> None | Some _ \<Rightarrow> Some (isin cols conf)),
                 artifact_vector = (case artifacts of
                                      None \<Rightarrow> None | Some _ \<Rightarrow> Some (isin cols art))\<rparr>)))))))))))"

text \<open>
  \<^verbatim>\<open>DesignMatrix(design, hrf_model, ntp, ...)\<close>: the caller's event table as the call
  leaves it, also when the call raises, and the object or the failure.
\<close>

definition DesignMatrix_init ::
  "(frame option \<Rightarrow> failure + ndarray2) \<Rightarrow> design_args
     \<Rightarrow> design_table \<times> (failure + design_matrix_obj)" where
  "DesignMatrix_init pca a =
     (let d = fill_defaults (arg_design a) in (d, DesignMatrix_build pca a d))"

subsection \<open>Submatrix views\<close>

text \<open>\<^verbatim>\<open>fr[names]\<close>: the columns carrying the names, in the order of the names.\<close>

definition select_columns :: "frame \<Rightarrow> label list \<Rightarrow> failure + frame" where
  "select_columns fr names =
     (if list_ex (\<lambda>n. n \<notin> set (columns fr)) names then Inl KeyError
      else (let picked = concat (map (\<lambda>n. filter (\<lambda>(l, c). l = n) (zip (columns fr) (data fr)))
                                   names)
            in Inr \<lparr>index = index fr, columns = map fst picked, data = map snd picked\<rparr>))"

definition confound_submatrix :: "design_matrix_obj \<Rightarrow> failure + frame option" where
  "confound_submatrix dm =
     (if confound_names dm = [] then Inr None
      else and_then (select_columns (design_matrix dm) (confound_names dm)) (\<lambda>fr. Inr (Some fr)))"

definition artifact_submatrix :: "design_matrix_obj \<Rightarrow> failure + frame option" where
  "artifact_submatrix dm =
     (if artifact_names dm = [] then Inr None
      else and_then (select_columns (design_matrix dm) (artifact_names dm)) (\<lambda>fr. Inr (Some fr)))"

definition main_submatrix :: "design_matrix_obj \<Rightarrow> failure + frame" where
  "main_submatrix dm = select_columns (design_matrix dm) (main_names dm)"

definition condition_submatrix :: "design_matrix_obj \<Rightarrow> failure + frame" where
  "condition_submatrix dm =
     select_columns (design_matrix dm) (map StrL (condition_names dm))"

section \<open>A worked construction\<close>

text \<open>
  Two conditions with one two-second event each, an unnamed regressor array, a confound
  table on a positional index and an artifact mask, for three frames of two seconds,
  with the identity HRF and no highpass filter. The event table has no \<^verbatim>\<open>value\<close> column.
  The PCA is not requested; \<open>no_pca\<close> stands for it.
\<close>

definition example_design :: design_table where
  "example_design =
     \<lparr>d_condition = [''B'', ''A''], d_onset = [0, 2], d_duration = Some [2, 2],
      d_value = None\<rparr>"

definition example_args :: "bool list \<Rightarrow> design_args" where
  "example_args flags =
     \<lparr>arg_design = example_design, arg_hrf_model = IdentityHRF, arg_ntp = 3,
      arg_regressors = Some (Array \<lparr>nrows = 3, acols = [[1, 2, 4]]\<rparr>),
      arg_confounds = Some (Table \<lparr>index = [0, 1, 2], columns = [StrL ''motion''],
                                   data = [[3, 4, 5]]\<rparr>),
      arg_artifacts = Some flags, arg_condition_names = None, arg_confound_pca = False,
      arg_tr = 2, arg_hpf_cutoff = None, arg_oversampling = 2\<rparr>"

definition no_pca :: "frame option \<Rightarrow> failure + ndarray2" where
  "no_pca confounds = Inl NotImplementedError"

definition example_hires :: frame where
  "example_hires =
     \<lparr>index = [0, 1, 2, 3, 4, 5], columns = [StrL ''A'', StrL ''B''],
      data = [[0, 0, 1, 1, 0, 0], [1, 1, 0, 0, 0, 0]]\<rparr>"

text \<open>The object built with the second frame flagged.\<close>

definition example_matrix :: design_matrix_obj where
  "example_matrix =
     \<lparr>design = example_design\<lparr>d_value := Some [1, 1]\<rparr>, tr = 2, frametimes = [0, 2, 4],
      hires_frametimes = [0, 1, 2, 3, 4, 5], condition_names = [''A'', ''B''], ntp = 3,
      hires_base = example_hires, hires_conditions = example_hires,
      design_matrix =
        \<lparr>index = [0, 2, 4],
         columns = [StrL ''A'', StrL ''B'', StrL ''regressor_0'', StrL ''motion'',
                    StrL ''artifact_0''],
         data = [[- (1 / 3), 2 / 3, - (1 / 3)], [2 / 3, - (1 / 3), - (1 / 3)],
                 [- (4 / 3), - (1 / 3), 5 / 3], [- 1, 0, 1],
                 [- (1 / 3), 2 / 3, - (1 / 3)]]\<rparr>,
      full_names = [StrL ''A'', StrL ''B'', StrL ''regressor_0'', StrL ''motion'',
                    StrL ''artifact_0''],
      main_names = [StrL ''A'', StrL ''B'', StrL ''regressor_0''],
      confound_names = [StrL ''motion''],
      artifact_names = [StrL ''artifact_0''],
      main_vector = [True, True, True, False, False],
      condition_vector = [True, True, False, False, False],
      confound_vector = Some [False, False, False, True, False],
      artifact_vector = Some [False, False, False, False, True]\<rparr>"

text \<open>The object built with no frame flagged.\<close>

definition example_matrix_unflagged :: design_matrix_obj where
  "example_matrix_unflagged =
     \<lparr>design = example_design\<lparr>d_value := Some [1, 1]\<rparr>, tr = 2, frametimes = [0, 2, 4],
      hires_frametimes = [0, 1, 2, 3, 4, 5], condition_names = [''A'', ''B''], ntp = 3,
      hires_base = example_hires, hires_conditions = example_hires,
      design_matrix =
        \<lparr>index = [0, 2, 4],
         columns = [StrL ''A'', StrL ''B'', StrL ''regressor_0'', StrL ''motion''],
         data = [[- (1 / 3), 2 / 3, - (1 / 3)], [2 / 3, - (1 / 3), - (1 / 3)],
                 [- (4 / 3), - (1 / 3), 5 / 3], [- 1, 0, 1]]\<rparr>,
      full_names = [StrL ''A'', StrL ''B'', StrL ''regressor_0'', StrL ''motion''],
      main_names = [StrL ''A'', StrL ''B'', StrL ''regressor_0''],
      confound_names = [StrL ''motion''],
      artifact_names = [],
      main_vector = [True, True, True, False],
      condition_vector = [True, True, False, False],
      confound_vector = Some [False, False, False, True],
      artifact_vector = None\<rparr>"

section \<open>Reading the masks\<close>

text \<open>
  Whether column \<open>i\<close> is selected by an optional mask; an absent mask (\<^verbatim>\<open>None\<close>) selects
  nothing.
\<close>

definition in_mask :: "bool list option \<Rightarrow> nat \<Rightarrow> bool" where
  "in_mask v i = (case v of None \<Rightarrow> False | Some m \<Rightarrow> m ! i)"

text \<open>No column of the full design matrix is selected by two of the three masks.\<close>

definition masks_exclusive :: "design_matrix_obj \<Rightarrow> bool" where
  "masks_exclusive dm =
     list_all (\<lambda>i. \<not> (main_vector dm ! i \<and> in_mask (confound_vector dm) i) \<and>
                    \<not> (main_vector dm ! i \<and> in_mask (artifact_vector dm) i) \<and>
                    \<not> (in_mask (confound_vector dm) i \<and> in_mask (artifact_vector dm) i))
       [0..<length (full_names dm)]"

text \<open>Every column of the full design matrix is selected by one of the three masks.\<close>

definition masks_cover :: "design_matrix_obj \<Rightarrow> bool" where
  "masks_cover dm =
     list_all (\<lambda>i. main_vector dm ! i \<or> in_mask (confound_vector dm) i \<or>
                    in_mask (artifact_vector dm) i)
       [0..<length (full_names dm)]"

definition has_temporal_deriv :: "hrf_model \<Rightarrow> bool" where
  "has_temporal_deriv hrf =
     (case hrf of IdentityHRF \<Rightarrow> False | GammaDifferenceHRF h \<Rightarrow> temporal_deriv h)"

text \<open>
  A construction with a derivative channel: one condition with one event, one frame of
  two seconds, and the model
  \<^verbatim>\<open>GammaDifferenceHRF(temporal_deriv=True, tr=2, oversampling=1, kernel_secs=4,
  pos_shape=2, neg_shape=3)\<close>, with the default scales 1 and the default ratio 1/6.
\<close>

definition deriv_hrf :: gamma_difference_hrf where
  "deriv_hrf =
     \<lparr>rv_pos = gamma_pdf 2 1, rv_neg = gamma_pdf 3 1, hrf_tr = 2, hrf_oversampling = 1,
      timepoints = [0, 4], temporal_deriv = True, ratio = 1 / 6\<rparr>"

definition deriv_design :: design_table where
  "deriv_design = \<lparr>d_condition = [''A''], d_onset = [0], d_duration = None, d_value = None\<rparr>"

definition deriv_hires :: frame where
  "deriv_hires =
     \<lparr>index = [0, 2], columns = [StrL ''A'', StrL ''A_deriv''], data = [[0, 1], [0, 1]]\<rparr>"

definition deriv_args :: design_args where
  "deriv_args =
     \<lparr>arg_design = deriv_design,
      arg_hrf_model = GammaDifferenceHRF deriv_hrf, arg_ntp = 1, arg_regressors = None,
      arg_confounds = None, arg_artifacts = None, arg_condition_names = None,
      arg_confound_pca = False, arg_tr = 2, arg_hpf_cutoff = None, arg_oversampling = 1\<rparr>"

text \<open>The object built with the derivative channel.\<close>

definition deriv_matrix :: design_matrix_obj where
  "deriv_matrix =
     \<lparr>design = deriv_design\<lparr>d_duration := Some [0], d_value := Some [1]\<rparr>, tr = 2,
      frametimes = [0], hires_frametimes = [0, 2], condition_names = [''A''], ntp = 1,
      hires_base = \<lparr>index = [0, 2], columns = [StrL ''A''], data = [[1, 0]]\<rparr>,
      hires_conditions = deriv_hires,
      design_matrix = \<lparr>index = [0], columns = [StrL ''A'', StrL ''A_deriv''],
                       data = [[0], [0]]\<rparr>,
      full_names = [StrL ''A'', StrL ''A_deriv''], main_names = [StrL ''A''],
      confound_names = [], artifact_names = [],
      main_vector = [True, False], condition_vector = [True, False],
      confound_vector = None, artifact_vector = None\<rparr>"

section \<open>Properties of the event encoder\<close>

lemma searchsorted_loop_le: "lo \<le> hi \<Longrightarrow> searchsorted_loop a v lo hi \<le> hi"
proof (induction a v lo hi rule: searchsorted_loop.induct)
  case (1 a v lo hi)
  show ?case
  proof (cases "lo < hi")
    case True
    then show ?thesis
      using "1.IH"(1) "1.IH"(2) by (subst searchsorted_loop.simps) auto
  next
    case False
    with "1.prems" show ?thesis by (subst searchsorted_loop.simps) simp
  qed
qed

lemma searchsorted_le_length: "searchsorted a v \<le> length a"
  by (simp add: searchsorted_def searchsorted_loop_le)

text \<open>On an ascending array the search returns the number of entries below \<open>v\<close>.\<close>

lemma count_below_split:
  fixes a :: "real list"
  assumes "lo \<le> length a" and "\<forall>i<lo. a ! i < v" and "\<forall>i. lo \<le> i \<and> i < length a \<longrightarrow> v \<le> a ! i"
  shows "length (filter (\<lambda>x. x < v) a) = lo"
proof -
  have "filter (\<lambda>x. x < v) (take lo a) = take lo a"
    using assms(1,2) by (auto simp: filter_id_conv in_set_conv_nth)
  moreover have "filter (\<lambda>x. x < v) (drop lo a) = []"
  proof -
    have "v \<le> x" if "x \<in> set (drop lo a)" for x
    proof -
      from that obtain i where i: "i < length a - lo" "x = a ! (lo + i)"
        by (auto simp: in_set_conv_nth)
      with assms(3) [rule_format, of "lo + i"] show ?thesis by simp
    qed
    then show ?thesis by (fastforce simp: filter_empty_conv)
  qed
  ultimately have "filter (\<lambda>x. x < v) (take lo a) @ filter (\<lambda>x. x < v) (drop lo a) = take lo a"
    by simp
  then have "filter (\<lambda>x. x < v) a = take lo a"
    by (simp only: filter_append [symmetric] append_take_drop_id)
  then show ?thesis using assms(1) by simp
qed

lemma searchsorted_loop_sorted:
  assumes "sorted a" and "lo \<le> hi" and "hi \<le> length a" and "\<forall>i<lo. a ! i < v"
    and "\<forall>i. hi \<le> i \<and> i < length a \<longrightarrow> v \<le> a ! i"
  shows "searchsorted_loop a v lo hi = length (filter (\<lambda>x. x < v) a)"
  using assms
proof (induction a v lo hi rule: searchsorted_loop.induct)
  case (1 a v lo hi)
  define mid where "mid = lo + (hi - lo) div 2"
  show ?case
  proof (cases "lo < hi")
    case False
    with "1.prems" have "lo = hi" by simp
    with "1.prems" count_below_split [of lo a v] False show ?thesis
      by (subst searchsorted_loop.simps) simp
  next
    case True
    then have mid: "lo \<le> mid" "mid < hi" by (simp_all add: mid_def) 
    show ?thesis
    proof (cases "a ! mid < v")
      case below: True
      have "\<forall>i<mid + 1. a ! i < v"
      proof (intro allI impI)
        fix i assume "i < mid + 1"
        then have "a ! i \<le> a ! mid"
          using "1.prems"(1,3) mid by (auto intro!: sorted_nth_mono)
        with below show "a ! i < v" by simp
      qed
      with "1.IH"(1) [OF True below [unfolded mid_def]] "1.prems" mid True below
      show ?thesis
        by (subst searchsorted_loop.simps) (simp add: mid_def)
    next
      case above: False
      have "\<forall>i. mid \<le> i \<and> i < length a \<longrightarrow> v \<le> a ! i"
      proof (intro allI impI)
        fix i assume "mid \<le> i \<and> i < length a"
        then have "a ! mid \<le> a ! i"
          using "1.prems"(1) by (auto intro!: sorted_nth_mono)
        with above show "v \<le> a ! i" by simp
      qed
      with "1.IH"(2) [OF True above [unfolded mid_def]] "1.prems" mid True above
      show ?thesis
        by (subst searchsorted_loop.simps) (simp add: mid_def)
    qed
  qed
qed

lemma searchsorted_sorted: "sorted a \<Longrightarrow> searchsorted a v = length (filter (\<lambda>x. x < v) a)"
  unfolding searchsorted_def by (rule searchsorted_loop_sorted) simp_all

lemma cumsum_from_append:
  "cumsum_from acc (xs @ ys) = cumsum_from acc xs @ cumsum_from (acc + sum_list xs) ys"
  by (induction xs arbitrary: acc) (simp_all add: add.assoc)

lemma cumsum_from_zeros: "cumsum_from acc (replicate n 0) = replicate n acc"
  by (induction n) simp_all

lemma replicate_update_split:
  "t < n \<Longrightarrow> (replicate n (0::real))[t := v] = replicate t 0 @ v # replicate (n - Suc t) 0"
  by (induction n arbitrary: t) (auto simp: less_Suc_eq_0_disj replicate_app_Cons_same)

lemma cumsum_pulse:
  assumes "Suc t < n"
  shows "cumsum ((replicate n 0)[t := v, Suc t := - v]) = (replicate n 0)[t := v]"
proof -
  have t: "t < n" using assms by simp
  have "(replicate n (0::real))[t := v, Suc t := - v]
      = replicate t 0 @ v # (replicate (n - Suc t) 0)[0 := - v]"
    using t by (simp add: replicate_update_split list_update_append)
  also have "(replicate (n - Suc t) (0::real))[0 := - v] = - v # replicate (n - Suc (Suc t)) 0"
    using assms replicate_update_split [of 0 "n - Suc t" "- v"] by simp
  finally have "cumsum ((replicate n 0)[t := v, Suc t := - v])
      = replicate t 0 @ v # 0 # replicate (n - Suc (Suc t)) 0"
    by (simp add: cumsum_def cumsum_from_append cumsum_from_zeros sum_list_replicate)
  also have "\<dots> = replicate t 0 @ v # replicate (n - Suc t) 0"
    using assms by (metis Suc_diff_Suc replicate_Suc)
  finally show ?thesis using t by (simp add: replicate_update_split)
qed

lemma cumsum_zeros: "cumsum (replicate n 0) = replicate n 0"
  by (simp add: cumsum_def cumsum_from_zeros)

lemma norm_index_in_range: "0 \<le> i \<Longrightarrow> i < int n \<Longrightarrow> norm_index n i = Inr (nat i)"
  by (simp add: norm_index_def)

text \<open>
  C1. One event of duration 0 on a non-empty hires grid. Its onset index is the search
  result clamped to the last grid index. When that index is not the last grid index the
  encoded timecourse is \<open>value\<close> at the onset sample and 0 at every other sample; when it
  is the last grid index the timecourse is 0 at every sample.
\<close>

theorem make_hires_ev_base_zero_duration:
  assumes "hft \<noteq> []"
  shows "make_hires_ev_base hft [(onset, 0, val)] =
           Inr (if min (searchsorted hft onset) (length hft - 1) = length hft - 1
                then replicate (length hft) 0
                else (replicate (length hft) 0)
                       [min (searchsorted hft onset) (length hft - 1) := val])"
proof -
  define n where "n = length hft"
  define t where "t = min (searchsorted hft onset) (n - 1)"
  have n: "0 < n" using assms by (simp add: n_def)
  have t: "t < n" using n unfolding t_def by arith
  have ti: "min (int (searchsorted hft onset)) (int n - 1) = int t"
    using assms unfolding t_def n_def min_def by (cases hft) auto
  have on: "iadd_at (replicate n 0) [int t] [val] = Inr ((replicate n 0)[t := val])"
    using t by (simp add: iadd_at_def norm_index_in_range)
  have unfolded: "make_hires_ev_base hft [(onset, 0, val)] =
      (case isub_at ((replicate n 0)[t := val])
              [if int t < int n - 1 then int t + 1 else int t] [val] of
         Inl e \<Rightarrow> Inl e
       | Inr ev2 \<Rightarrow> Inr (cumsum ev2))"
    unfolding make_hires_ev_base_def Let_def n_def [symmetric]
    by (simp add: ti on)
  have main: "make_hires_ev_base hft [(onset, 0, val)] =
      Inr (if t = n - 1 then replicate n 0 else (replicate n 0)[t := val])"
  proof (cases "t = n - 1")
    case True
    have off: "isub_at ((replicate n 0)[t := val]) [int t] [val] = Inr (replicate n 0)"
      using t by (simp add: isub_at_def norm_index_in_range list_update_same_conv)
    have "\<not> int t < int n - 1" using True n by simp
    then show ?thesis
      unfolding unfolded using True off by (simp add: cumsum_zeros)
  next
    case False
    then have st: "Suc t < n" using t by simp
    have off: "isub_at ((replicate n 0)[t := val]) [int t + 1] [val]
                 = Inr ((replicate n 0)[t := val, Suc t := - val])"
    proof -
      have "norm_index n (int t + 1) = Inr (Suc t)"
        using st norm_index_in_range [of "int t + 1" n] by (simp add: nat_add_distrib)
      then show ?thesis using st by (simp add: isub_at_def)
    qed
    have "int t < int n - 1" using st by simp
    then show ?thesis
      unfolding unfolded using False off st by (simp add: cumsum_pulse)
  qed
  show ?thesis using main unfolding t_def n_def .
qed

theorem make_hires_ev_base_zero_duration_witness:
  "[0, 1, 2 :: real] \<noteq> [] \<and>
   make_hires_ev_base [0, 1, 2] [(1, 0, 5)] = Inr [0, 5, 0] \<and>
   make_hires_ev_base [0, 1, 2] [(2, 0, 5)] = Inr [0, 0, 0]"
  using make_hires_ev_base_zero_duration [of "[0, 1, 2]" 1 5]
    make_hires_ev_base_zero_duration [of "[0, 1, 2]" 2 5]
  by (simp add: searchsorted_def searchsorted_loop.simps)

text \<open>
  An empty hires grid has no last index: the clamp is \<open>-1\<close> and the first indexed
  update raises.
\<close>

lemma make_hires_ev_base_empty_grid:
  "make_hires_ev_base [] ((onset, duration, val) # info) = Inl IndexError"
  by (simp add: make_hires_ev_base_def iadd_at_def norm_index_def searchsorted_def
      searchsorted_loop.simps)

section \<open>Properties of the HRF models\<close>

text \<open>
  C3 (as the code behaves). \<^verbatim>\<open>FIR()\<close> does fail, but not with \<^verbatim>\<open>NotImplementedError\<close>:
  \<^verbatim>\<open>FIR.__init__\<close> returns the exception class instead of raising it, and Python turns
  the returned object into a \<^verbatim>\<open>TypeError\<close>. The abstract base class is the sibling that
  raises \<^verbatim>\<open>NotImplementedError\<close>.
\<close>

theorem FIR_new_raises_TypeError:
  "FIR_new = Inl TypeError \<and> FIR_new \<noteq> Inl NotImplementedError \<and>
   HRFModel_new = Inl NotImplementedError"
  by (simp add: FIR_new_def HRFModel_new_def construct_def FIR_init_def HRFModel_init_def)






section \<open>Properties of the resampler\<close>

lemma collect_map_Inr:
  assumes "\<And>x. x \<in> set xs \<Longrightarrow> f x = Inr (g x)"
  shows "collect (map f xs) = Inr (map g xs)"
  using assms by (induction xs) simp_all

lemma interp1d_nearest_constant:
  assumes "x \<noteq> []" and "\<forall>t \<in> set x_new. hd x \<le> t \<and> t \<le> last x"
  shows "interp1d_nearest x (replicate (length x) c) x_new = Inr (replicate (length x_new) c)"
proof -
  have inside: "\<not> list_ex (\<lambda>t. t < hd x \<or> last x < t) x_new"
    using assms(2) by (auto simp: list_ex_iff)
  have pick: "replicate (length x) c ! min i (length x - Suc 0) = c" for i
  proof -
    have "min i (length x - Suc 0) < length x"
      using assms(1) by (cases x) (auto simp: min_def)
    then show ?thesis by simp
  qed
  show ?thesis
    using assms(1) inside by (simp add: interp1d_nearest_def pick map_replicate_const)
qed

text \<open>
  C8. A hires table whose columns are constant, one value \<open>c\<close> per column, on a
  non-empty hires grid: when the midpoint \<open>t + rt / 2\<close> of every acquisition frame lies
  between the first and the last hires sample, the resampled table has the same labels
  and every column is \<open>c\<close> at every acquisition timestamp.
\<close>

theorem subsample_constant:
  assumes "hft \<noteq> []"
    and "\<forall>t \<in> set ft. hd hft \<le> t + rt / 2 \<and> t + rt / 2 \<le> last hft"
  shows "subsample_condition_matrix
           \<lparr>index = hft, columns = names, data = map (replicate (length hft)) cs\<rparr> hft ft rt =
         Inr \<lparr>index = ft, columns = names, data = map (replicate (length ft)) cs\<rparr>"
proof -
  have mid: "\<forall>t \<in> set (map (\<lambda>t. t + rt / 2) ft). hd hft \<le> t \<and> t \<le> last hft"
    using assms(2) by simp
  have each: "interp1d_nearest hft vals (map (\<lambda>t. t + rt / 2) ft) =
        Inr ((\<lambda>v. replicate (length ft) (hd v)) vals)"
    if "vals \<in> set (map (replicate (length hft)) cs)" for vals
  proof -
    from that obtain c where c: "vals = replicate (length hft) c" by auto
    have "hd vals = c" using assms(1) c by (cases hft) simp_all
    then show ?thesis
      using interp1d_nearest_constant [OF assms(1) mid, of c] c by simp
  qed
  have cols_eq: "map (\<lambda>v. replicate (length ft) (hd v)) (map (replicate (length hft)) cs) =
      map (replicate (length ft)) cs"
    using assms(1) by (cases hft) simp_all
  show ?thesis
    unfolding subsample_condition_matrix_def Let_def
    by (simp only: collect_map_Inr [of _ _ "\<lambda>v. replicate (length ft) (hd v)", OF each] cols_eq
        frame.simps sum.case)
qed

theorem subsample_constant_witness:
  "[0, 1, 2, 3 :: real] \<noteq> [] \<and>
   hd [0, 1, 2, 3 :: real] \<le> 0 + 2 / 2 \<and> (2 :: real) + 2 / 2 \<le> last [0, 1, 2, 3] \<and>
   subsample_condition_matrix
     \<lparr>index = [0, 1, 2, 3], columns = [StrL ''A''], data = [[7, 7, 7, 7]]\<rparr> [0, 1, 2, 3] [0, 2] 2 =
   Inr \<lparr>index = [0, 2], columns = [StrL ''A''], data = [[7, 7]]\<rparr>"
proof -
  have h1: "[0, 1, 2, 3 :: real] \<noteq> []" by simp
  have h2: "\<forall>t \<in> set [0, 2 :: real].
      hd [0, 1, 2, 3 :: real] \<le> t + 2 / 2 \<and> t + 2 / 2 \<le> last [0, 1, 2, 3]"
    by simp
  from subsample_constant [OF h1 h2, of "[StrL ''A'']" "[7]"] h1 h2 show ?thesis
    by (simp add: numeral_eq_Suc)
qed

section \<open>Properties of the component validator\<close>

lemma default_names_not_positions:
  "0 < n \<Longrightarrow> default_names name_base n \<noteq> map (\<lambda>i. IntL (int i)) [0..<n]"
  by (cases n) (auto simp: default_names_def upt_conv_Cons simp del: upt_Suc)

text \<open>
  C4. A supplied table with the acquisition frametimes \<open>ft\<close> is accepted exactly when its
  time index is \<open>ft\<close> itself or the positions \<open>0, \<dots>, n - 1\<close> of the \<open>n\<close> frames, and
  it is then returned on the index \<open>ft\<close> (with default names instead of the labels
  \<open>0, \<dots>\<close> of an unnamed table); in every other case the validator raises
  \<^verbatim>\<open>ValueError\<close>, the error of line 403. A supplied array has no time index: it is put on
  \<open>ft\<close> when it has one row per frame, and raises \<^verbatim>\<open>ValueError\<close> otherwise.
\<close>

theorem validate_component_alignment:
  "validate_component ft (Some (Table f)) name_base =
     (if index f = ft \<or> (length (index f) = length ft \<and> index f = map real [0..<length ft])
      then Inr (Some ((if columns f = map (\<lambda>i. IntL (int i)) [0..<length (data f)]
                       then f\<lparr>columns := default_names name_base (length (data f))\<rparr>
                       else f)\<lparr>index := ft\<rparr>))
      else Inl ValueError) \<and>
   validate_component ft (Some (Array a)) name_base =
     (if nrows a = length ft
      then Inr (Some \<lparr>index = ft, columns = default_names name_base (length (acols a)),
                      data = acols a\<rparr>)
      else Inl ValueError)"
proof
  show "validate_component ft (Some (Table f)) name_base =
     (if index f = ft \<or> (length (index f) = length ft \<and> index f = map real [0..<length ft])
      then Inr (Some ((if columns f = map (\<lambda>i. IntL (int i)) [0..<length (data f)]
                       then f\<lparr>columns := default_names name_base (length (data f))\<rparr>
                       else f)\<lparr>index := ft\<rparr>))
      else Inl ValueError)"
    by (auto simp: validate_component_def Let_def)
next
  show "validate_component ft (Some (Array a)) name_base =
     (if nrows a = length ft
      then Inr (Some \<lparr>index = ft, columns = default_names name_base (length (acols a)),
                      data = acols a\<rparr>)
      else Inl ValueError)"
  proof (cases "acols a = []")
    case True
    then show ?thesis
      by (simp add: validate_component_def Let_def default_names_def)
  next
    case False
    then have "default_names name_base (length (acols a)) \<noteq>
        map (\<lambda>i. IntL (int i)) [0..<length (acols a)]"
      by (intro default_names_not_positions) simp
    then show ?thesis
      by (simp add: validate_component_def Let_def)
  qed
qed

theorem validate_component_alignment_witness:
  "validate_component [0, 2, 4] (Some (Table \<lparr>index = [0, 1, 2], columns = [StrL ''motion''],
       data = [[5, 6, 7]]\<rparr>)) ''confound'' =
     Inr (Some \<lparr>index = [0, 2, 4], columns = [StrL ''motion''], data = [[5, 6, 7]]\<rparr>) \<and>
   validate_component [0, 2, 4] (Some (Table \<lparr>index = [0, 2, 4], columns = [IntL 0],
       data = [[5, 6, 7]]\<rparr>)) ''confound'' =
     Inr (Some \<lparr>index = [0, 2, 4], columns = [StrL ''confound_0''], data = [[5, 6, 7]]\<rparr>) \<and>
   validate_component [0, 2, 4] (Some (Table \<lparr>index = [1, 2, 3], columns = [StrL ''motion''],
       data = [[5, 6, 7]]\<rparr>)) ''confound'' = Inl ValueError \<and>
   validate_component [0, 2, 4] (Some (Array \<lparr>nrows = 3, acols = [[5, 6, 7]]\<rparr>)) ''confound'' =
     Inr (Some \<lparr>index = [0, 2, 4], columns = [StrL ''confound_0''], data = [[5, 6, 7]]\<rparr>)"
  using validate_component_alignment [of "[0, 2, 4]"
      "\<lparr>index = [0, 1, 2], columns = [StrL ''motion''], data = [[5, 6, 7]]\<rparr>" "''confound''"]
    validate_component_alignment [of "[0, 2, 4]"
      "\<lparr>index = [0, 2, 4], columns = [IntL 0], data = [[5, 6, 7]]\<rparr>" "''confound''"]
    validate_component_alignment [of "[0, 2, 4]"
      "\<lparr>index = [1, 2, 3], columns = [StrL ''motion''], data = [[5, 6, 7]]\<rparr>" "''confound''"
      "\<lparr>nrows = 3, acols = [[5, 6, 7]]\<rparr>"]
  by (simp add: default_names_def digits.simps upt_conv_Cons)

section \<open>The worked construction, stage by stage\<close>

lemma example_frametimes: "make_frametimes 3 2 2 = Inr ([0, 2, 4], [0, 1, 2, 3, 4, 5])"
  by code_simp

lemma example_names: "sort (remdups (d_condition (fill_defaults example_design))) = [''A'', ''B'']"
  by code_simp

lemma example_filled: "fill_defaults example_design = example_design\<lparr>d_value := Some [1, 1]\<rparr>"
  by (simp add: fill_defaults_def example_design_def)

lemma example_hires_base:
  "make_hires_base (fill_defaults example_design) [0, 1, 2, 3, 4, 5] [''A'', ''B''] =
     Inr example_hires"
  by code_simp

lemma example_convolve:
  "convolve IdentityHRF example_hires [0, 1, 2, 3, 4, 5] [''A'', ''B''] = Inr example_hires"
  by (simp add: convolve_def and_then_def get_column_def IdentityHRF_convolve_def
      set_column_def example_hires_def)

lemma example_subsample:
  "subsample_condition_matrix example_hires [0, 1, 2, 3, 4, 5] [0, 2, 4] 2 =
     Inr \<lparr>index = [0, 2, 4], columns = [StrL ''A'', StrL ''B''],
          data = [[0, 1, 0], [1, 0, 0]]\<rparr>"
  by code_simp

lemma example_regressors:
  "validate_component [0, 2, 4] (Some (Array \<lparr>nrows = 3, acols = [[1, 2, 4]]\<rparr>)) ''regressor'' =
     Inr (Some \<lparr>index = [0, 2, 4], columns = [StrL ''regressor_0''], data = [[1, 2, 4]]\<rparr>)"
  by code_simp

lemma example_confounds:
  "validate_component [0, 2, 4]
     (Some (Table \<lparr>index = [0, 1, 2], columns = [StrL ''motion''], data = [[3, 4, 5]]\<rparr>))
     ''confound'' =
     Inr (Some \<lparr>index = [0, 2, 4], columns = [StrL ''motion''], data = [[3, 4, 5]]\<rparr>)"
  by code_simp

lemma example_artifacts:
  "make_artifacts [0, 2, 4] (Some [False, True, False]) =
     Inr (Some \<lparr>index = [0, 2, 4], columns = [StrL ''artifact_0''], data = [[0, 1, 0]]\<rparr>)"
  "make_artifacts [0, 2, 4] (Some [False, False, False]) = Inr None"
  by code_simp+

lemma example_assemble:
  "assemble [0, 2, 4]
     [demean_columns \<lparr>index = [0, 2, 4], columns = [StrL ''A'', StrL ''B''],
                      data = [[0, 1, 0], [1, 0, 0]]\<rparr>,
      \<lparr>index = [0, 2, 4], columns = [StrL ''regressor_0''], data = [[1, 2, 4]]\<rparr>,
      \<lparr>index = [0, 2, 4], columns = [StrL ''motion''], data = [[3, 4, 5]]\<rparr>,
      \<lparr>index = [0, 2, 4], columns = [StrL ''artifact_0''], data = [[0, 1, 0]]\<rparr>] =
   design_matrix example_matrix"
  "assemble [0, 2, 4]
     [demean_columns \<lparr>index = [0, 2, 4], columns = [StrL ''A'', StrL ''B''],
                      data = [[0, 1, 0], [1, 0, 0]]\<rparr>,
      \<lparr>index = [0, 2, 4], columns = [StrL ''regressor_0''], data = [[1, 2, 4]]\<rparr>,
      \<lparr>index = [0, 2, 4], columns = [StrL ''motion''], data = [[3, 4, 5]]\<rparr>] =
   design_matrix example_matrix_unflagged"
  by code_simp+

lemmas example_stages =
  example_frametimes example_names example_hires_base example_convolve example_subsample
  example_regressors example_confounds example_artifacts example_assemble

lemma example_construction:
  "DesignMatrix_init no_pca (example_args [False, True, False]) =
     (example_design\<lparr>d_value := Some [1, 1]\<rparr>, Inr example_matrix)"
  unfolding DesignMatrix_init_def DesignMatrix_build_def
  by (simp add: example_args_def example_stages and_then_def apply_pca_def opt_list_def
      names_of_def)
    (simp add: example_filled example_matrix_def isin_def Let_def)

lemma example_construction_unflagged:
  "DesignMatrix_init no_pca (example_args [False, False, False]) =
     (example_design\<lparr>d_value := Some [1, 1]\<rparr>, Inr example_matrix_unflagged)"
  unfolding DesignMatrix_init_def DesignMatrix_build_def
  by (simp add: example_args_def example_stages and_then_def apply_pca_def opt_list_def
      names_of_def)
    (simp add: example_filled example_matrix_unflagged_def isin_def Let_def)

section \<open>Properties of the design matrix\<close>

lemma and_then_eq_Inr: "and_then r f = Inr y \<longleftrightarrow> (\<exists>x. r = Inr x \<and> f x = Inr y)"
  by (cases r) (simp_all add: and_then_def)

text \<open>What a successful construction went through, stage by stage.\<close>

lemma DesignMatrix_build_stages:
  assumes "DesignMatrix_build pca a d = Inr dm"
  obtains ft hft base hires sub conditions regressors confounds0 confounds artifacts where
    "make_frametimes (arg_ntp a) (arg_tr a) (arg_oversampling a) = Inr (ft, hft)"
    "condition_names dm =
       (case arg_condition_names a of None \<Rightarrow> sort (remdups (d_condition d)) | Some ns \<Rightarrow> ns)"
    "make_hires_base d hft (condition_names dm) = Inr base"
    "convolve (arg_hrf_model a) base hft (condition_names dm) = Inr hires"
    "subsample_condition_matrix hires hft ft (arg_tr a) = Inr sub"
    "(case arg_hpf_cutoff a of
        None \<Rightarrow> Inr (demean_columns sub)
      | Some cutoff \<Rightarrow> highpass_filter (arg_ntp a) (arg_tr a) (demean_columns sub) cutoff) =
     Inr conditions"
    "validate_component ft (arg_regressors a) ''regressor'' = Inr regressors"
    "validate_component ft (arg_confounds a) ''confound'' = Inr confounds0"
    "apply_pca pca (arg_confound_pca a) confounds0 = Inr confounds"
    "make_artifacts ft (arg_artifacts a) = Inr artifacts"
    "design_matrix dm =
       assemble ft (conditions # opt_list regressors @ opt_list confounds @ opt_list artifacts)"
    "full_names dm = columns (design_matrix dm)"
    "main_names dm = map StrL (condition_names dm) @ names_of regressors"
    "confound_names dm = names_of confounds"
    "artifact_names dm = names_of artifacts"
    "main_vector dm = isin (full_names dm) (main_names dm)"
    "confound_vector dm =
       (case confounds of None \<Rightarrow> None | Some _ \<Rightarrow> Some (isin (full_names dm) (confound_names dm)))"
    "artifact_vector dm =
       (case artifacts of None \<Rightarrow> None | Some _ \<Rightarrow> Some (isin (full_names dm) (artifact_names dm)))"
    "design dm = d" "frametimes dm = ft"
proof -
  from assms obtain ft hft base hires sub conditions regressors confounds0 confounds artifacts
    where st: "make_frametimes (arg_ntp a) (arg_tr a) (arg_oversampling a) = Inr (ft, hft)"
      "make_hires_base d hft
         (case arg_condition_names a of None \<Rightarrow> sort (remdups (d_condition d)) | Some ns \<Rightarrow> ns) =
       Inr base"
      "convolve (arg_hrf_model a) base hft
         (case arg_condition_names a of None \<Rightarrow> sort (remdups (d_condition d)) | Some ns \<Rightarrow> ns) =
       Inr hires"
      "subsample_condition_matrix hires hft ft (arg_tr a) = Inr sub"
      "(case arg_hpf_cutoff a of
          None \<Rightarrow> Inr (demean_columns sub)
        | Some cutoff \<Rightarrow> highpass_filter (arg_ntp a) (arg_tr a) (demean_columns sub) cutoff) =
       Inr conditions"
      "validate_component ft (arg_regressors a) ''regressor'' = Inr regressors"
      "validate_component ft (arg_confounds a) ''confound'' = Inr confounds0"
      "apply_pca pca (arg_confound_pca a) confounds0 = Inr confounds"
      "make_artifacts ft (arg_artifacts a) = Inr artifacts"
    and dm: "dm = (let names = (case arg_condition_names a of
                     None \<Rightarrow> sort (remdups (d_condition d)) | Some ns \<Rightarrow> ns);
            X = assemble ft
                  (conditions # opt_list regressors @ opt_list confounds @ opt_list artifacts);
            main = map StrL names @ names_of regressors;
            conf = names_of confounds;
            art = names_of artifacts;
            cols = columns X
        in \<lparr>design = d, tr = arg_tr a, frametimes = ft, hires_frametimes = hft,
                 condition_names = names, ntp = arg_ntp a, hires_base = base,
                 hires_conditions = hires, design_matrix = X,
                 full_names = cols, main_names = main, confound_names = conf,
                 artifact_names = art,
                 main_vector = isin cols main,
                 condition_vector = isin cols (map StrL names),
                 confound_vector = (case confounds of
                                      None \<Rightarrow> None | Some _ \<Rightarrow> Some (isin cols conf)),
                 artifact_vector = (case artifacts of
                                      None \<Rightarrow> None | Some _ \<Rightarrow> Some (isin cols art))\<rparr>)"
    by (auto simp: DesignMatrix_build_def and_then_eq_Inr Let_def)
  show ?thesis
    by (rule that [OF st(1) _ _ _ st(4-9)]) (use st(2,3) in \<open>simp_all add: dm Let_def split: option.splits\<close>)
qed

subsection \<open>The caller's event table\<close>

text \<open>
  C9 (as stated) fails: the worked construction is given an event table without a
  \<^verbatim>\<open>value\<close> column, succeeds, and leaves the caller's table with a \<^verbatim>\<open>value\<close> column of
  ones.
\<close>

theorem design_table_changed_counterexample:
  "DesignMatrix_init no_pca (example_args [False, True, False]) =
     (example_design\<lparr>d_value := Some [1, 1]\<rparr>, Inr example_matrix) \<and>
   d_value (arg_design (example_args [False, True, False])) = None \<and>
   d_value (fst (DesignMatrix_init no_pca (example_args [False, True, False]))) = Some [1, 1]"
  by (simp add: example_construction) (simp add: example_args_def example_design_def)

text \<open>
  C9 (amended). Whether or not the construction succeeds, it leaves the \<^verbatim>\<open>condition\<close>
  and \<^verbatim>\<open>onset\<close> columns and an existing \<^verbatim>\<open>duration\<close> or \<^verbatim>\<open>value\<close> column of the caller's
  table as they were; a missing \<^verbatim>\<open>duration\<close> column is added with a 0 for every event and
  a missing \<^verbatim>\<open>value\<close> column with a 1 for every event. A table that has both optional
  columns is unchanged.
\<close>

theorem design_table_after_construction:
  "d_condition (fst (DesignMatrix_init pca a)) = d_condition (arg_design a) \<and>
   d_onset (fst (DesignMatrix_init pca a)) = d_onset (arg_design a) \<and>
   d_duration (fst (DesignMatrix_init pca a)) =
     Some (case d_duration (arg_design a) of
             None \<Rightarrow> replicate (length (d_condition (arg_design a))) 0
           | Some durations \<Rightarrow> durations) \<and>
   d_value (fst (DesignMatrix_init pca a)) =
     Some (case d_value (arg_design a) of
             None \<Rightarrow> replicate (length (d_condition (arg_design a))) 1
           | Some vals \<Rightarrow> vals) \<and>
   (d_duration (arg_design a) \<noteq> None \<and> d_value (arg_design a) \<noteq> None \<longrightarrow>
      fst (DesignMatrix_init pca a) = arg_design a)"
  by (auto simp: DesignMatrix_init_def fill_defaults_def Let_def)

theorem design_table_after_construction_witness:
  "fst (DesignMatrix_init no_pca (example_args [False, True, False])) =
     \<lparr>d_condition = [''B'', ''A''], d_onset = [0, 2], d_duration = Some [2, 2],
      d_value = Some [1, 1]\<rparr> \<and>
   fst (DesignMatrix_init no_pca
      ((example_args [False, True, False])
         \<lparr>arg_design := example_design\<lparr>d_value := Some [3, 4]\<rparr>\<rparr>)) =
     example_design\<lparr>d_value := Some [3, 4]\<rparr>"
proof -
  have both: "d_duration (arg_design ((example_args [False, True, False])
         \<lparr>arg_design := example_design\<lparr>d_value := Some [3, 4]\<rparr>\<rparr>)) \<noteq> None \<and>
      d_value (arg_design ((example_args [False, True, False])
         \<lparr>arg_design := example_design\<lparr>d_value := Some [3, 4]\<rparr>\<rparr>)) \<noteq> None"
    by (simp add: example_design_def)
  from design_table_after_construction [of no_pca "(example_args [False, True, False])
         \<lparr>arg_design := example_design\<lparr>d_value := Some [3, 4]\<rparr>\<rparr>"] both
  have "fst (DesignMatrix_init no_pca
      ((example_args [False, True, False])
         \<lparr>arg_design := example_design\<lparr>d_value := Some [3, 4]\<rparr>\<rparr>)) =
     example_design\<lparr>d_value := Some [3, 4]\<rparr>"
    by simp
  then show ?thesis
    using design_table_after_construction [of no_pca "example_args [False, True, False]"]
    by (simp add: example_construction example_design_def)
qed

subsection \<open>Artifacts\<close>

text \<open>
  C6. Whenever a construction given an artifact mask without a flagged frame succeeds,
  the object has no artifact names and no artifact mask, and its artifact submatrix is
  \<^verbatim>\<open>None\<close>.
\<close>

theorem unflagged_artifacts_no_submatrix:
  assumes "DesignMatrix_init pca a = (d', Inr dm)"
    and "arg_artifacts a = Some flags"
    and "\<forall>b \<in> set flags. \<not> b"
  shows "artifact_submatrix dm = Inr None \<and> artifact_names dm = [] \<and>
         artifact_vector dm = None"
proof -
  from assms(1) have built: "DesignMatrix_build pca a (fill_defaults (arg_design a)) = Inr dm"
    by (auto simp: DesignMatrix_init_def Let_def)
  have none: "make_artifacts ft (arg_artifacts a) = Inr None" for ft
    using assms(2,3) by (auto simp: make_artifacts_def list_ex_iff)
  from built show ?thesis
  proof (rule DesignMatrix_build_stages)
    fix ft :: "real list" and artifacts confounds
    assume "make_artifacts ft (arg_artifacts a) = Inr artifacts"
      and names: "artifact_names dm = names_of artifacts"
      and vec: "artifact_vector dm =
        (case artifacts of None \<Rightarrow> None
         | Some _ \<Rightarrow> Some (isin (full_names dm) (artifact_names dm)))"
    with none [of ft] have "artifacts = None" by simp
    with names vec show ?thesis
      by (simp add: artifact_submatrix_def names_of_def)
  qed
qed

theorem unflagged_artifacts_no_submatrix_witness:
  "DesignMatrix_init no_pca (example_args [False, False, False]) =
     (example_design\<lparr>d_value := Some [1, 1]\<rparr>, Inr example_matrix_unflagged) \<and>
   artifact_submatrix example_matrix_unflagged = Inr None"
proof -
  have flags: "arg_artifacts (example_args [False, False, False]) = Some [False, False, False]"
    by (simp add: example_args_def)
  have unflagged: "\<forall>b \<in> set [False, False, False]. \<not> b"
    by simp
  from unflagged_artifacts_no_submatrix [OF example_construction_unflagged flags unflagged]
  show ?thesis
    by (simp add: example_construction_unflagged)
qed

subsection \<open>Mean-centering\<close>

lemma sum_list_demean: "sum_list (demean xs) = 0"
proof (cases "xs = []")
  case True
  then show ?thesis by (simp add: demean_def)
next
  case False
  have "sum_list (map (\<lambda>x. x - m) xs) = sum_list xs - real (length xs) * m" for m :: real
    by (induction xs) (simp_all add: algebra_simps)
  then show ?thesis
    using False by (simp add: demean_def mean_def)
qed

lemma mean_demean: "mean (demean xs) = 0"
  using sum_list_demean [of xs] by (simp add: mean_def)

text \<open>
  C2. In every constructed object the full design matrix is indexed by the acquisition
  frametimes, and every one of its columns sums to 0, so that its mean over the
  acquisition grid is 0 (a column without rows has no mean).
\<close>

theorem design_matrix_columns_mean_zero:
  assumes "DesignMatrix_init pca a = (d', Inr dm)"
  shows "index (design_matrix dm) = frametimes dm \<and>
         (\<forall>c \<in> set (data (design_matrix dm)). sum_list c = 0 \<and> (c \<noteq> [] \<longrightarrow> mean c = 0))"
proof -
  from assms have built: "DesignMatrix_build pca a (fill_defaults (arg_design a)) = Inr dm"
    by (auto simp: DesignMatrix_init_def Let_def)
  from built show ?thesis
  proof (rule DesignMatrix_build_stages)
    fix ft :: "real list" and conditions regressors confounds artifacts
    assume X: "design_matrix dm =
        assemble ft (conditions # opt_list regressors @ opt_list confounds @ opt_list artifacts)"
      and ft: "frametimes dm = ft"
    show ?thesis
      unfolding X ft
      by (auto simp: assemble_def demean_columns_def sum_list_demean mean_demean)
  qed
qed

theorem design_matrix_columns_mean_zero_witness:
  "DesignMatrix_init no_pca (example_args [False, True, False]) =
     (example_design\<lparr>d_value := Some [1, 1]\<rparr>, Inr example_matrix) \<and>
   data (design_matrix example_matrix) =
     [[- (1 / 3), 2 / 3, - (1 / 3)], [2 / 3, - (1 / 3), - (1 / 3)],
      [- (4 / 3), - (1 / 3), 5 / 3], [- 1, 0, 1], [- (1 / 3), 2 / 3, - (1 / 3)]] \<and>
   list_all (\<lambda>c. sum_list c = 0 \<and> c \<noteq> [] \<and> mean c = 0)
     (data (design_matrix example_matrix))"
  using design_matrix_columns_mean_zero [OF example_construction]
  by (simp add: example_construction list_all_iff) (simp add: example_matrix_def)

subsection \<open>The masks\<close>

text \<open>The construction with a derivative channel, stage by stage.\<close>

lemma deriv_hrf_init:
  "GammaDifferenceHRF_init True 2 1 4 (gamma_pdf 2 1) (gamma_pdf 3 1) (1 / 6) = Inr deriv_hrf"
  by (simp add: GammaDifferenceHRF_init_def deriv_hrf_def linspace_def upt_conv_Cons
      numeral_eq_Suc)

lemma deriv_kernel_unnormalized: "kernel_unnormalized deriv_hrf = [0, 8 / 3 * exp (- 4)]"
  by (simp add: kernel_unnormalized_def deriv_hrf_def gamma_pdf_def fact_numeral)

lemma deriv_kernel_main: "kernel_main deriv_hrf = Inr [0, 1]"
  by (simp add: kernel_main_def deriv_kernel_unnormalized Let_def)

lemma deriv_kernel: "kernel deriv_hrf = Inr [[0, 1], [0, 1]]"
proof -
  have td: "temporal_deriv deriv_hrf" by (simp add: deriv_hrf_def)
  show ?thesis
    by (simp add: kernel_def deriv_kernel_main td diff_def Let_def)
qed

lemma np_convolve_pulse: "np_convolve [1, 0] [u, v] = Inr [u, v, 0]"
  by (simp add: np_convolve_def upt_conv_Cons numeral_eq_Suc)

lemma deriv_frametimes: "make_frametimes (Suc 0) 2 1 = Inr ([0], [0, 2])"
  by code_simp

lemma deriv_filled:
  "fill_defaults deriv_design = deriv_design\<lparr>d_duration := Some [0], d_value := Some [1]\<rparr>"
  by (simp add: fill_defaults_def deriv_design_def)

lemma deriv_names: "sort (remdups (d_condition (fill_defaults deriv_design))) = [''A'']"
  by code_simp

lemma deriv_hires_base:
  "make_hires_base (fill_defaults deriv_design) [0, 2] [''A''] =
     Inr \<lparr>index = [0, 2], columns = [StrL ''A''], data = [[1, 0]]\<rparr>"
  by code_simp

lemma deriv_convolve:
  "convolve (GammaDifferenceHRF deriv_hrf)
     \<lparr>index = [0, 2], columns = [StrL ''A''], data = [[1, 0]]\<rparr> [0, 2] [''A''] =
   Inr deriv_hires"
proof -
  have td: "temporal_deriv deriv_hrf" by (simp add: deriv_hrf_def)
  show ?thesis
    by (simp add: convolve_def and_then_def get_column_def GammaDifferenceHRF_convolve_def
        deriv_kernel td np_convolve_pulse set_column_def deriv_hires_def)
qed

lemma deriv_subsample:
  "subsample_condition_matrix deriv_hires [0, 2] [0] 2 =
     Inr \<lparr>index = [0], columns = [StrL ''A'', StrL ''A_deriv''], data = [[0], [0]]\<rparr>"
  by code_simp

lemma deriv_construction:
  "DesignMatrix_init no_pca deriv_args =
     (deriv_design\<lparr>d_duration := Some [0], d_value := Some [1]\<rparr>, Inr deriv_matrix)"
proof -
  have sel: "arg_design deriv_args = deriv_design"
    "arg_hrf_model deriv_args = GammaDifferenceHRF deriv_hrf" "arg_ntp deriv_args = 1"
    "arg_tr deriv_args = 2" "arg_oversampling deriv_args = 1" "arg_hpf_cutoff deriv_args = None"
    "arg_regressors deriv_args = None" "arg_confounds deriv_args = None"
    "arg_artifacts deriv_args = None" "arg_condition_names deriv_args = None"
    "\<not> arg_confound_pca deriv_args"
    by (simp_all add: deriv_args_def)
  show ?thesis
    unfolding DesignMatrix_init_def DesignMatrix_build_def
    by (simp add: sel deriv_frametimes deriv_names deriv_hires_base deriv_convolve
        deriv_subsample and_then_def validate_component_def make_artifacts_def apply_pca_def
        opt_list_def names_of_def assemble_def demean_columns_def demean_def mean_def isin_def
        Let_def)
      (simp add: deriv_filled deriv_matrix_def)
qed

text \<open>The labels of the table, from the hires base to the assembled matrix.\<close>

lemma isin_nth: "i < length cols \<Longrightarrow> isin cols names ! i \<longleftrightarrow> cols ! i \<in> set names"
  by (simp add: isin_def)

lemma set_columns_keeps: "set (columns fr) \<subseteq> set (columns (set_columns fr kvs))"
proof (induction kvs arbitrary: fr)
  case Nil
  then show ?case by simp
next
  case (Cons kv kvs)
  obtain key vals where kv: "kv = (key, vals)" by (cases kv)
  have "set (columns fr) \<subseteq> set (columns (set_column fr key vals))"
    by (auto simp: set_column_def)
  with Cons.IH [of "set_column fr key vals"] show ?case
    unfolding kv by auto
qed

lemma set_columns_adds:
  "set (columns (set_columns fr kvs)) \<subseteq> set (columns fr) \<union> fst ` set kvs"
proof (induction kvs arbitrary: fr)
  case Nil
  then show ?case by simp
next
  case (Cons kv kvs)
  obtain key vals where kv: "kv = (key, vals)" by (cases kv)
  have "set (columns (set_column fr key vals)) \<subseteq> set (columns fr) \<union> {key}"
    by (auto simp: set_column_def)
  with Cons.IH [of "set_column fr key vals"] show ?case
    unfolding kv by auto
qed

lemma set_columns_same:
  "fst ` set kvs \<subseteq> set (columns fr) \<Longrightarrow> columns (set_columns fr kvs) = columns fr"
proof (induction kvs arbitrary: fr)
  case Nil
  then show ?case by simp
next
  case (Cons kv kvs)
  obtain key vals where kv: "kv = (key, vals)" by (cases kv)
  from Cons.prems have "columns (set_column fr key vals) = columns fr"
    by (simp add: kv set_column_def)
  with Cons.IH [of "set_column fr key vals"] Cons.prems show ?case
    unfolding kv by simp
qed

lemma hrf_convolve_columns:
  assumes "hrf_convolve hrf dat hft cond = Inr res"
  shows "columns res =
           (if has_temporal_deriv hrf then [StrL cond, StrL (cond @ ''_deriv'')]
            else [StrL cond])"
proof (cases hrf)
  case IdentityHRF
  with assms show ?thesis
    by (auto simp: IdentityHRF_convolve_def has_temporal_deriv_def split: if_splits)
next
  case (GammaDifferenceHRF h)
  with assms show ?thesis
    by (auto simp: GammaDifferenceHRF_convolve_def has_temporal_deriv_def Let_def
        split: sum.splits if_splits)
qed

lemma convolve_loop_keeps:
  "convolve_loop hrf base hft conds acc = Inr r \<Longrightarrow> set (columns acc) \<subseteq> set (columns r)"
proof (induction conds arbitrary: acc)
  case Nil
  then show ?case by simp
next
  case (Cons cond conds)
  from Cons.prems obtain col res where
    res: "hrf_convolve hrf col hft cond = Inr res" and
    rest: "convolve_loop hrf base hft conds (set_columns acc (zip (columns res) (data res))) =
             Inr r"
    by (auto simp: and_then_eq_Inr)
  from Cons.IH [OF rest] set_columns_keeps [of acc] show ?case by blast
qed

lemma convolve_loop_adds:
  "convolve_loop hrf base hft conds acc = Inr r \<Longrightarrow>
     set (columns r) \<subseteq> set (columns acc) \<union> StrL ` set conds \<union>
                         (\<lambda>c. StrL (c @ ''_deriv'')) ` set conds"
proof (induction conds arbitrary: acc)
  case Nil
  then show ?case by simp
next
  case (Cons cond conds)
  from Cons.prems obtain col res where
    res: "hrf_convolve hrf col hft cond = Inr res" and
    rest: "convolve_loop hrf base hft conds (set_columns acc (zip (columns res) (data res))) =
             Inr r"
    by (auto simp: and_then_eq_Inr)
  have "fst ` set (zip (columns res) (data res)) \<subseteq> set (columns res)"
    by (auto dest: set_zip_leftD)
  also have "set (columns res) \<subseteq> {StrL cond, StrL (cond @ ''_deriv'')}"
    using hrf_convolve_columns [OF res] by (auto split: if_splits)
  finally have new: "fst ` set (zip (columns res) (data res)) \<subseteq>
      {StrL cond, StrL (cond @ ''_deriv'')}" .
  from Cons.IH [OF rest] set_columns_adds [of acc "zip (columns res) (data res)"] new
  have "set (columns r) \<subseteq> set (columns acc) \<union> {StrL cond, StrL (cond @ ''_deriv'')} \<union>
      StrL ` set conds \<union> (\<lambda>c. StrL (c @ ''_deriv'')) ` set conds"
    by blast
  then show ?case by auto
qed

lemma convolve_loop_same:
  "convolve_loop hrf base hft conds acc = Inr r \<Longrightarrow> \<not> has_temporal_deriv hrf \<Longrightarrow>
     StrL ` set conds \<subseteq> set (columns acc) \<Longrightarrow> columns r = columns acc"
proof (induction conds arbitrary: acc)
  case Nil
  then show ?case by simp
next
  case (Cons cond conds)
  from Cons.prems(1) obtain col res where
    res: "hrf_convolve hrf col hft cond = Inr res" and
    rest: "convolve_loop hrf base hft conds (set_columns acc (zip (columns res) (data res))) =
             Inr r"
    by (auto simp: and_then_eq_Inr)
  have "fst ` set (zip (columns res) (data res)) \<subseteq> set (columns res)"
    by (auto dest: set_zip_leftD)
  also have "set (columns res) \<subseteq> set (columns acc)"
    using hrf_convolve_columns [OF res] Cons.prems(2,3) by simp
  finally have same: "columns (set_columns acc (zip (columns res) (data res))) = columns acc"
    by (rule set_columns_same)
  from Cons.IH [OF rest Cons.prems(2)] Cons.prems(3) same show ?case by simp
qed

lemma make_hires_base_columns:
  "make_hires_base d hft names = Inr base \<Longrightarrow> columns base = map StrL names"
  by (auto simp: make_hires_base_def and_then_eq_Inr)

lemma subsample_columns:
  "subsample_condition_matrix hires hft ft rt = Inr sub \<Longrightarrow> columns sub = columns hires"
  by (auto simp: subsample_condition_matrix_def Let_def split: sum.splits)

lemma filtered_columns:
  assumes "(case cutoff of
              None \<Rightarrow> Inr (demean_columns sub)
            | Some c \<Rightarrow> highpass_filter n rt (demean_columns sub) c) = Inr conditions"
  shows "columns conditions = columns sub"
  using assms
  by (auto simp: highpass_filter_def demean_columns_def split: option.splits sum.splits if_splits)

lemma assemble_columns:
  "columns (assemble ft (conditions # opt_list regressors @ opt_list confounds @ opt_list artifacts)) =
     columns conditions @ names_of regressors @ names_of confounds @ names_of artifacts"
  by (simp add: assemble_def demean_columns_def opt_list_def names_of_def split: option.splits)

text \<open>
  The masks select by name: a repeated label is selected as often as it occurs, by every
  mask whose name list holds it.
\<close>

lemma isin_repeated_label: "isin [StrL ''A'', StrL ''A''] [StrL ''A''] = [True, True]"
  by (simp add: isin_def)

text \<open>
  C5 (as stated) fails: in the construction with a derivative channel the full design
  matrix has the columns \<^verbatim>\<open>A\<close> and \<^verbatim>\<open>A_deriv\<close>; the main mask selects only \<^verbatim>\<open>A\<close>, there
  is no confound and no artifact mask, and so \<^verbatim>\<open>A_deriv\<close> is in no mask.
\<close>

theorem masks_cover_counterexample:
  "GammaDifferenceHRF_init True 2 1 4 (gamma_pdf 2 1) (gamma_pdf 3 1) (1 / 6) = Inr deriv_hrf \<and>
   DesignMatrix_init no_pca deriv_args =
     (deriv_design\<lparr>d_duration := Some [0], d_value := Some [1]\<rparr>, Inr deriv_matrix) \<and>
   full_names deriv_matrix = [StrL ''A'', StrL ''A_deriv''] \<and>
   main_vector deriv_matrix = [True, False] \<and>
   confound_vector deriv_matrix = None \<and> artifact_vector deriv_matrix = None \<and>
   \<not> masks_cover deriv_matrix"
  using deriv_hrf_init deriv_construction
  by (simp add: deriv_matrix_def masks_cover_def in_mask_def upt_conv_Cons numeral_eq_Suc)

text \<open>
  C5 (amended). In every constructed object: when the labels of the full design matrix
  are pairwise distinct, no column is in two of the three masks; when the HRF model has
  no temporal-derivative channel, every column is in one of the masks; and in any case a
  column that is in none of the masks is a derivative column, labelled with a condition
  name followed by \<^verbatim>\<open>_deriv\<close>.
\<close>

theorem masks_of_construction:
  assumes "DesignMatrix_init pca a = (d', Inr dm)"
  shows "(distinct (full_names dm) \<longrightarrow> masks_exclusive dm) \<and>
         (\<not> has_temporal_deriv (arg_hrf_model a) \<longrightarrow> masks_cover dm) \<and>
         (\<forall>i < length (full_names dm).
            \<not> (main_vector dm ! i \<or> in_mask (confound_vector dm) i \<or>
               in_mask (artifact_vector dm) i) \<longrightarrow>
            (\<exists>c \<in> set (condition_names dm). full_names dm ! i = StrL (c @ ''_deriv'')))"
proof -
  from assms have built: "DesignMatrix_build pca a (fill_defaults (arg_design a)) = Inr dm"
    by (auto simp: DesignMatrix_init_def Let_def)
  from built show ?thesis
  proof (rule DesignMatrix_build_stages)
    fix ft hft :: "real list" and base hires sub conditions :: frame
      and regressors confounds0 confounds artifacts :: "frame option"
    assume base: "make_hires_base (fill_defaults (arg_design a)) hft (condition_names dm) = Inr base"
      and hires: "convolve (arg_hrf_model a) base hft (condition_names dm) = Inr hires"
      and sub: "subsample_condition_matrix hires hft ft (arg_tr a) = Inr sub"
      and conditions: "(case arg_hpf_cutoff a of
            None \<Rightarrow> Inr (demean_columns sub)
          | Some cutoff \<Rightarrow> highpass_filter (arg_ntp a) (arg_tr a) (demean_columns sub) cutoff) =
          Inr conditions"
      and X: "design_matrix dm =
          assemble ft (conditions # opt_list regressors @ opt_list confounds @ opt_list artifacts)"
      and full: "full_names dm = columns (design_matrix dm)"
      and main: "main_names dm = map StrL (condition_names dm) @ names_of regressors"
      and conf: "confound_names dm = names_of confounds"
      and art: "artifact_names dm = names_of artifacts"
      and mv: "main_vector dm = isin (full_names dm) (main_names dm)"
      and cv: "confound_vector dm =
          (case confounds of None \<Rightarrow> None
           | Some _ \<Rightarrow> Some (isin (full_names dm) (confound_names dm)))"
      and av: "artifact_vector dm =
          (case artifacts of None \<Rightarrow> None
           | Some _ \<Rightarrow> Some (isin (full_names dm) (artifact_names dm)))"
    define N where "N = map StrL (condition_names dm)"
    define H where "H = columns hires"
    define R where "R = names_of regressors"
    define C where "C = names_of confounds"
    define A where "A = names_of artifacts"
    have base_cols: "columns base = N"
      using make_hires_base_columns [OF base] by (simp add: N_def)
    have loop: "convolve_loop (arg_hrf_model a) base hft (condition_names dm) base = Inr hires"
      using hires by (simp add: convolve_def)
    have N_H: "set N \<subseteq> set H"
      using convolve_loop_keeps [OF loop] by (simp add: base_cols H_def)
    have H_N: "set H \<subseteq> set N \<union> (\<lambda>c. StrL (c @ ''_deriv'')) ` set (condition_names dm)"
      using convolve_loop_adds [OF loop] by (auto simp: base_cols H_def N_def)
    have plain: "H = N" if "\<not> has_temporal_deriv (arg_hrf_model a)"
      using convolve_loop_same [OF loop that] by (simp add: base_cols H_def N_def)
    have names: "full_names dm = H @ R @ C @ A"
      unfolding full X assemble_columns
      by (simp add: filtered_columns [OF conditions] subsample_columns [OF sub] H_def R_def
          C_def A_def)
    have in_main: "main_vector dm ! i \<longleftrightarrow> full_names dm ! i \<in> set N \<union> set R"
      if "i < length (full_names dm)" for i
      using that by (simp add: mv isin_nth main N_def R_def)
    have in_conf: "in_mask (confound_vector dm) i \<longleftrightarrow> full_names dm ! i \<in> set C"
      if "i < length (full_names dm)" for i
      using that
      by (cases confounds) (simp_all add: cv in_mask_def isin_nth conf C_def names_of_def)
    have in_art: "in_mask (artifact_vector dm) i \<longleftrightarrow> full_names dm ! i \<in> set A"
      if "i < length (full_names dm)" for i
      using that
      by (cases artifacts) (simp_all add: av in_mask_def isin_nth art A_def names_of_def)
    have exclusive: "masks_exclusive dm" if "distinct (full_names dm)"
    proof -
      from that have "set H \<inter> set C = {}" "set H \<inter> set A = {}" "set R \<inter> set C = {}"
        "set R \<inter> set A = {}" "set C \<inter> set A = {}"
        unfolding names by auto
      with N_H have apart: "(set N \<union> set R) \<inter> set C = {}" "(set N \<union> set R) \<inter> set A = {}"
        "set C \<inter> set A = {}"
        by blast+
      show ?thesis
        unfolding masks_exclusive_def list_all_iff
      proof
        fix i assume "i \<in> set [0..<length (full_names dm)]"
        then have i: "i < length (full_names dm)" by simp
        show "\<not> (main_vector dm ! i \<and> in_mask (confound_vector dm) i) \<and>
              \<not> (main_vector dm ! i \<and> in_mask (artifact_vector dm) i) \<and>
              \<not> (in_mask (confound_vector dm) i \<and> in_mask (artifact_vector dm) i)"
          unfolding in_main [OF i] in_conf [OF i] in_art [OF i] using apart by blast
      qed
    qed
    have cover: "masks_cover dm" if "\<not> has_temporal_deriv (arg_hrf_model a)"
      unfolding masks_cover_def list_all_iff
    proof
      fix i assume "i \<in> set [0..<length (full_names dm)]"
      then have i: "i < length (full_names dm)" by simp
      then have "full_names dm ! i \<in> set (full_names dm)" by simp
      then have "full_names dm ! i \<in> set N \<union> set R \<union> set C \<union> set A"
        unfolding names plain [OF that] by auto
      then show "main_vector dm ! i \<or> in_mask (confound_vector dm) i \<or>
            in_mask (artifact_vector dm) i"
        unfolding in_main [OF i] in_conf [OF i] in_art [OF i] by blast
    qed
    have orphan: "\<exists>c \<in> set (condition_names dm). full_names dm ! i = StrL (c @ ''_deriv'')"
      if i: "i < length (full_names dm)"
        and out: "\<not> (main_vector dm ! i \<or> in_mask (confound_vector dm) i \<or>
               in_mask (artifact_vector dm) i)" for i
    proof -
      from i have "full_names dm ! i \<in> set (full_names dm)" by simp
      then have "full_names dm ! i \<in> set H \<union> set R \<union> set C \<union> set A"
        unfolding names by auto
      moreover from out have "full_names dm ! i \<notin> set N \<union> set R \<union> set C \<union> set A"
        unfolding in_main [OF i] in_conf [OF i] in_art [OF i] by blast
      ultimately have "full_names dm ! i \<in> set H - set N" by blast
      with H_N show ?thesis by blast
    qed
    from exclusive cover orphan show ?thesis by blast
  qed
qed

theorem masks_of_construction_witness:
  "DesignMatrix_init no_pca (example_args [False, True, False]) =
     (example_design\<lparr>d_value := Some [1, 1]\<rparr>, Inr example_matrix) \<and>
   distinct (full_names example_matrix) \<and>
   \<not> has_temporal_deriv (arg_hrf_model (example_args [False, True, False])) \<and>
   masks_exclusive example_matrix \<and> masks_cover example_matrix"
proof -
  have names: "distinct (full_names example_matrix)"
    by (simp add: example_matrix_def)
  have plain: "\<not> has_temporal_deriv (arg_hrf_model (example_args [False, True, False]))"
    by (simp add: example_args_def has_temporal_deriv_def)
  from masks_of_construction [OF example_construction] names plain show ?thesis
    by (simp add: example_construction)
qed

section \<open>Properties of the highpass filter\<close>

lemma dot_sum:
  assumes "length u = length v"
  shows "dot u v = (\<Sum>i<length u. u ! i * v ! i)"
proof -
  have "dot u v = (\<Sum>i = 0..<length (map2 (*) u v). map2 (*) u v ! i)"
    unfolding dot_def by (rule sum_list_sum_nth)
  also have "\<dots> = (\<Sum>i<length u. u ! i * v ! i)"
    using assms by (intro sum.cong) (auto simp: atLeast0LessThan)
  finally show ?thesis .
qed

lemma sum_list_map_upt: "sum_list (map f [0..<n]) = (\<Sum>i<n. f i)"
  by (simp add: interv_sum_list_conv_sum_set_nat atLeast0LessThan)

lemma sum_delta_mult_left:
  "j < n \<Longrightarrow> (\<Sum>m<n. (if j = m then x else 0) * f m) = x * (f j :: real)" for n :: nat
proof -
  have "(\<Sum>m<n. (if j = m then x else 0) * f m) = (\<Sum>m<n. if j = m then x * f m else 0)"
    by (intro sum.cong) auto
  then show "j < n \<Longrightarrow> ?thesis"
    by simp
qed

lemma sum_delta_mult_right:
  "j < n \<Longrightarrow> (\<Sum>m<n. f m * (if m = j then x m else 0)) = (f j :: real) * x j" for n :: nat
proof -
  have "(\<Sum>m<n. f m * (if m = j then x m else 0)) = (\<Sum>m<n. if m = j then f m * x m else 0)"
    by (intro sum.cong) auto
  then show "j < n \<Longrightarrow> ?thesis"
    by simp
qed

lemma mat_column_diag:
  "j < length w \<Longrightarrow> mat_column (diag w) j = map (\<lambda>i. if i = j then w ! i else 0) [0..<length w]"
  by (simp add: mat_column_def diag_def)

lemma ncols_diag: "w \<noteq> [] \<Longrightarrow> ncols (diag w) = length w"
  by (cases w) (simp_all add: ncols_def diag_def upt_conv_Cons del: upt_Suc)

text \<open>Multiplying by a diagonal matrix on the left scales the rows.\<close>

lemma mat_mul_diag_left:
  assumes "length B = length w"
  shows "mat_mul (diag w) B =
           map (\<lambda>i. map (\<lambda>c. w ! i * B ! i ! c) [0..<ncols B]) [0..<length w]"
proof -
  have "dot (map (\<lambda>j. if i = j then w ! i else 0) [0..<length w]) (mat_column B c) =
      w ! i * B ! i ! c" if "i < length w" for i c
  proof -
    have "dot (map (\<lambda>j. if i = j then w ! i else 0) [0..<length w]) (mat_column B c) =
        (\<Sum>m<length w. (if i = m then w ! i else 0) * (B ! m ! c))"
      using assms by (subst dot_sum) (auto simp: mat_column_def intro!: sum.cong)
    also have "\<dots> = w ! i * B ! i ! c"
      using that by (rule sum_delta_mult_left)
    finally show ?thesis .
  qed
  then show ?thesis
    by (simp add: mat_mul_def diag_def)
qed

text \<open>Multiplying by a diagonal matrix on the right scales the columns.\<close>

lemma mat_mul_diag_right:
  assumes "w \<noteq> []" and "\<forall>r \<in> set A. length r = length w"
  shows "mat_mul A (diag w) = map (\<lambda>r. map (\<lambda>j. r ! j * w ! j) [0..<length w]) A"
proof -
  have "dot r (mat_column (diag w) j) = r ! j * w ! j"
    if "r \<in> set A" "j < length w" for r j
  proof -
    from that assms(2) have len: "length r = length w" by simp
    have "dot r (mat_column (diag w) j) =
        (\<Sum>m<length w. r ! m * (if m = j then w ! m else 0))"
      using that(2) len by (subst dot_sum) (auto simp: mat_column_diag intro!: sum.cong)
    also have "\<dots> = r ! j * w ! j"
      using that(2) by (rule sum_delta_mult_right)
    finally show ?thesis .
  qed
  then show ?thesis
    by (simp add: mat_mul_def ncols_diag [OF assms(1)])
qed


text \<open>The Gram determinant of the weighted regressors is positive.\<close>

lemma gram_det_pos:
  fixes u :: "nat \<Rightarrow> real"
  assumes "2 \<le> n" and pos: "\<And>j. j < n \<Longrightarrow> 0 < u j"
  shows "0 < (\<Sum>j<n. u j * u j) * (\<Sum>j<n. (u j * real j) * (u j * real j)) -
             (\<Sum>j<n. u j * (u j * real j)) * (\<Sum>j<n. u j * (u j * real j))"
proof -
  define S0 where "S0 = (\<Sum>j<n. u j * u j)"
  define S1 where "S1 = (\<Sum>j<n. u j * (u j * real j))"
  define S2 where "S2 = (\<Sum>j<n. (u j * real j) * (u j * real j))"
  have S0: "0 < S0"
    unfolding S0_def using assms by (intro sum_pos) (auto simp: lessThan_empty_iff)
  have q: "0 < (\<Sum>j<n. u j * u j * ((real j - l) * (real j - l)))" for l :: real
  proof (cases "l = 0")
    case True
    have "0 < u 1 * u 1 * ((real 1 - l) * (real 1 - l))"
      using pos [of 1] assms(1) True by (simp add: zero_less_mult_iff)
    moreover have "1 \<in> {..<n}" using assms(1) by simp
    ultimately show ?thesis
      by (intro sum_pos2 [of _ 1]) auto
  next
    case False
    have "0 < u 0 * u 0 * ((real 0 - l) * (real 0 - l))"
      using pos [of 0] assms(1) False by (auto simp: zero_less_mult_iff)
    moreover have "0 \<in> {..<n}" using assms(1) by simp
    ultimately show ?thesis
      by (intro sum_pos2 [of _ 0]) auto
  qed
  have expand: "(\<Sum>j<n. u j * u j * ((real j - l) * (real j - l))) = S2 - 2 * l * S1 + l * l * S0"
    for l :: real
    unfolding S0_def S1_def S2_def
    by (simp add: algebra_simps sum.distrib sum_subtractf sum_distrib_left)
  from q [of "S1 / S0"] have "0 < S2 - 2 * (S1 / S0) * S1 + (S1 / S0) * (S1 / S0) * S0"
    by (simp only: expand)
  also have "\<dots> = (S0 * S2 - S1 * S1) / S0"
    using S0 by (simp add: field_simps)
  finally have "0 < S0 * S2 - S1 * S1"
    using S0 by (simp add: zero_less_divide_iff)
  then show ?thesis
    by (simp only: S0_def S1_def S2_def)
qed


text \<open>
  The pseudo-inverse of a matrix with independent columns \<open>a\<close> and \<open>b\<close>, and the four
  entries of its product with the matrix, which is the 2-by-2 identity.
\<close>

lemma pinv_independent_columns:
  fixes a b :: "nat \<Rightarrow> real" and n :: nat
  defines "d \<equiv> (\<Sum>i<n. a i * a i) * (\<Sum>i<n. b i * b i) - (\<Sum>i<n. a i * b i) * (\<Sum>i<n. a i * b i)"
  assumes "d \<noteq> 0"
  shows "pinv (map (\<lambda>i. [a i, b i]) [0..<n]) =
           [map (\<lambda>i. ((\<Sum>i<n. b i * b i) * a i - (\<Sum>i<n. a i * b i) * b i) / d) [0..<n],
            map (\<lambda>i. ((\<Sum>i<n. a i * a i) * b i - (\<Sum>i<n. a i * b i) * a i) / d) [0..<n]]"
proof -
  have cols: "mat_column (map (\<lambda>i. [a i, b i]) [0..<n]) 0 = map a [0..<n]"
    "mat_column (map (\<lambda>i. [a i, b i]) [0..<n]) 1 = map b [0..<n]"
    by (simp_all add: mat_column_def)
  have dots: "dot (map f [0..<n]) (map g [0..<n]) = (\<Sum>i<n. f i * g i)" for f g :: "nat \<Rightarrow> real"
    by (simp add: dot_def map2_map_map sum_list_map_upt)
  show ?thesis
    using assms(2) unfolding pinv_def cols dots Let_def d_def
    by (simp add: map2_map_map)
qed

lemma pinv_left_inverse:
  fixes a b :: "nat \<Rightarrow> real" and n :: nat
  defines "d \<equiv> (\<Sum>i<n. a i * a i) * (\<Sum>i<n. b i * b i) - (\<Sum>i<n. a i * b i) * (\<Sum>i<n. a i * b i)"
  assumes "d \<noteq> 0"
  shows "(\<Sum>j<n. ((\<Sum>i<n. b i * b i) * a j - (\<Sum>i<n. a i * b i) * b j) / d * a j) = 1"
    and "(\<Sum>j<n. ((\<Sum>i<n. a i * a i) * b j - (\<Sum>i<n. a i * b i) * a j) / d * a j) = 0"
    and "(\<Sum>j<n. ((\<Sum>i<n. b i * b i) * a j - (\<Sum>i<n. a i * b i) * b j) / d * b j) = 0"
    and "(\<Sum>j<n. ((\<Sum>i<n. a i * a i) * b j - (\<Sum>i<n. a i * b i) * a j) / d * b j) = 1"
proof -
  define Saa where "Saa = (\<Sum>i<n. a i * a i)"
  define Sab where "Sab = (\<Sum>i<n. a i * b i)"
  define Sbb where "Sbb = (\<Sum>i<n. b i * b i)"
  have d: "d = Saa * Sbb - Sab * Sab"
    by (simp add: d_def Saa_def Sab_def Sbb_def)
  have "(\<Sum>j<n. (Sbb * a j - Sab * b j) / d * a j) =
      (\<Sum>j<n. Sbb * (a j * a j) - Sab * (a j * b j)) / d"
    by (simp add: sum_divide_distrib algebra_simps)
  also have "(\<Sum>j<n. Sbb * (a j * a j) - Sab * (a j * b j)) =
      Sbb * (\<Sum>j<n. a j * a j) - Sab * (\<Sum>j<n. a j * b j)"
    by (simp add: sum_subtractf flip: sum_distrib_left)
  finally have "(\<Sum>j<n. (Sbb * a j - Sab * b j) / d * a j) = (Sbb * Saa - Sab * Sab) / d"
    by (simp only: Saa_def Sab_def)
  also have "\<dots> = 1"
    using assms(2) by (simp add: d mult.commute)
  finally show "(\<Sum>j<n. ((\<Sum>i<n. b i * b i) * a j - (\<Sum>i<n. a i * b i) * b j) / d * a j) = 1"
    by (simp only: Sab_def Sbb_def)
  have "(\<Sum>j<n. (Saa * b j - Sab * a j) / d * a j) =
      (\<Sum>j<n. Saa * (a j * b j) - Sab * (a j * a j)) / d"
    by (simp add: sum_divide_distrib algebra_simps)
  also have "(\<Sum>j<n. Saa * (a j * b j) - Sab * (a j * a j)) =
      Saa * (\<Sum>j<n. a j * b j) - Sab * (\<Sum>j<n. a j * a j)"
    by (simp add: sum_subtractf flip: sum_distrib_left)
  finally have "(\<Sum>j<n. (Saa * b j - Sab * a j) / d * a j) = (Saa * Sab - Sab * Saa) / d"
    by (simp only: Saa_def Sab_def)
  also have "\<dots> = 0"
    by simp
  finally show "(\<Sum>j<n. ((\<Sum>i<n. a i * a i) * b j - (\<Sum>i<n. a i * b i) * a j) / d * a j) = 0"
    by (simp only: Saa_def Sab_def)
  have "(\<Sum>j<n. (Sbb * a j - Sab * b j) / d * b j) =
      (\<Sum>j<n. Sbb * (a j * b j) - Sab * (b j * b j)) / d"
    by (simp add: sum_divide_distrib algebra_simps)
  also have "(\<Sum>j<n. Sbb * (a j * b j) - Sab * (b j * b j)) =
      Sbb * (\<Sum>j<n. a j * b j) - Sab * (\<Sum>j<n. b j * b j)"
    by (simp add: sum_subtractf flip: sum_distrib_left)
  finally have "(\<Sum>j<n. (Sbb * a j - Sab * b j) / d * b j) = (Sbb * Sab - Sab * Sbb) / d"
    by (simp only: Sab_def Sbb_def)
  also have "\<dots> = 0"
    by simp
  finally show "(\<Sum>j<n. ((\<Sum>i<n. b i * b i) * a j - (\<Sum>i<n. a i * b i) * b j) / d * b j) = 0"
    by (simp only: Sab_def Sbb_def)
  have "(\<Sum>j<n. (Saa * b j - Sab * a j) / d * b j) =
      (\<Sum>j<n. Saa * (b j * b j) - Sab * (a j * b j)) / d"
    by (simp add: sum_divide_distrib algebra_simps)
  also have "(\<Sum>j<n. Saa * (b j * b j) - Sab * (a j * b j)) =
      Saa * (\<Sum>j<n. b j * b j) - Sab * (\<Sum>j<n. a j * b j)"
    by (simp add: sum_subtractf flip: sum_distrib_left)
  finally have "(\<Sum>j<n. (Saa * b j - Sab * a j) / d * b j) = (Saa * Sbb - Sab * Sab) / d"
    by (simp only: Sab_def Sbb_def)
  also have "\<dots> = 1"
    using assms(2) by (simp add: d)
  finally show "(\<Sum>j<n. ((\<Sum>i<n. a i * a i) * b j - (\<Sum>i<n. a i * b i) * a j) / d * b j) = 1"
    by (simp only: Saa_def Sab_def)
qed


text \<open>
  One row of the locally weighted fit: with positive weights \<open>w\<close> on at least two
  timepoints, row \<open>k\<close> of the hat matrix has \<open>n\<close> entries that sum to 1.
\<close>

lemma hat_row_sum:
  assumes n: "2 \<le> n" and len: "length w = n" and pos: "\<And>j. j < n \<Longrightarrow> 0 < w ! j"
    and k: "k < n"
  defines "X \<equiv> map (\<lambda>i. [1, real i]) [0..<n]"
  shows "length (mat_mul (mat_mul X (pinv (mat_mul (diag w) X))) (diag w) ! k) = n"
    and "sum_list (mat_mul (mat_mul X (pinv (mat_mul (diag w) X))) (diag w) ! k) = 1"
proof -
  define a where "a = (\<lambda>i. w ! i)"
  define b where "b = (\<lambda>i. w ! i * real i)"
  define d where "d = (\<Sum>i<n. a i * a i) * (\<Sum>i<n. b i * b i) -
      (\<Sum>i<n. a i * b i) * (\<Sum>i<n. a i * b i)"
  define p0 where "p0 = (\<lambda>i. ((\<Sum>i<n. b i * b i) * a i - (\<Sum>i<n. a i * b i) * b i) / d)"
  define p1 where "p1 = (\<lambda>i. ((\<Sum>i<n. a i * a i) * b i - (\<Sum>i<n. a i * b i) * a i) / d)"
  have n0: "0 < n" using n by simp
  have w: "w \<noteq> []" using len n0 by auto
  have ncolsX: "ncols X = 2"
    using n0 by (cases n) (simp_all add: X_def ncols_def upt_conv_Cons del: upt_Suc)
  have A: "mat_mul (diag w) X = map (\<lambda>i. [a i, b i]) [0..<n]"
  proof -
    have "mat_mul (diag w) X = map (\<lambda>i. map (\<lambda>c. w ! i * X ! i ! c) [0..<2]) [0..<n]"
      using mat_mul_diag_left [of X w] by (simp add: X_def len ncolsX [unfolded X_def])
    also have "\<dots> = map (\<lambda>i. [a i, b i]) [0..<n]"
    proof (rule map_cong [OF refl])
      fix i assume "i \<in> set [0..<n]"
      then have "X ! i = [1, real i]" by (simp add: X_def)
      moreover have "[0..<2] = [0, Suc 0]" by (simp add: upt_conv_Cons numeral_eq_Suc)
      ultimately show "map (\<lambda>c. w ! i * X ! i ! c) [0..<2] = [a i, b i]"
        by (simp add: a_def b_def)
    qed
    finally show ?thesis .
  qed
  have "0 < d"
    unfolding d_def a_def b_def using gram_det_pos [OF n, of "\<lambda>j. w ! j"] pos by simp
  then have d: "d \<noteq> 0" by simp
  have P: "pinv (mat_mul (diag w) X) = [map p0 [0..<n], map p1 [0..<n]]"
    unfolding A p0_def p1_def using pinv_independent_columns [where a = a and b = b and n = n] d
    by (simp add: d_def)
  have XP: "mat_mul X [map p0 [0..<n], map p1 [0..<n]] =
      map (\<lambda>i. map (\<lambda>j. p0 j + real i * p1 j) [0..<n]) [0..<n]"
    by (simp add: mat_mul_def X_def ncols_def mat_column_def dot_def)
  have hat: "mat_mul (map (\<lambda>i. map (\<lambda>j. p0 j + real i * p1 j) [0..<n]) [0..<n]) (diag w) =
      map (\<lambda>i. map (\<lambda>j. (p0 j + real i * p1 j) * w ! j) [0..<n]) [0..<n]"
    using mat_mul_diag_right [OF w, of "map (\<lambda>i. map (\<lambda>j. p0 j + real i * p1 j) [0..<n]) [0..<n]"]
    by (simp add: len comp_def)
  have row: "mat_mul (mat_mul X (pinv (mat_mul (diag w) X))) (diag w) ! k =
      map (\<lambda>j. (p0 j + real k * p1 j) * w ! j) [0..<n]"
    unfolding P XP hat using k by simp
  show "length (mat_mul (mat_mul X (pinv (mat_mul (diag w) X))) (diag w) ! k) = n"
    unfolding row by simp
  have "sum_list (map (\<lambda>j. (p0 j + real k * p1 j) * w ! j) [0..<n]) =
      (\<Sum>j<n. p0 j * a j) + real k * (\<Sum>j<n. p1 j * a j)"
    by (simp add: sum_list_map_upt a_def algebra_simps sum.distrib sum_distrib_left)
  also have "\<dots> = 1"
    using pinv_left_inverse [where a = a and b = b and n = n] d by (simp add: p0_def p1_def d_def)
  finally show "sum_list (mat_mul (mat_mul X (pinv (mat_mul (diag w) X))) (diag w) ! k) = 1"
    unfolding row .
qed


lemma dot_replicate: "length r = n \<Longrightarrow> dot r (replicate n c) = sum_list r * c"
proof -
  have "(\<Sum>x\<leftarrow>r. x * c) = sum_list r * c"
    by (induction r) (simp_all add: algebra_simps)
  then show "length r = n \<Longrightarrow> ?thesis"
    by (simp add: dot_def zip_replicate2 comp_def)
qed

lemma sum_list_map2_minus:
  "length xs = length ys \<Longrightarrow> sum_list (map2 (-) xs ys) = sum_list xs - (sum_list ys :: real)"
  by (induction xs ys rule: list_induct2) simp_all

lemma sum_list_eye_row: "k < n \<Longrightarrow> sum_list (eye n ! k) = 1"
proof -
  assume k: "k < n"
  have "sum_list (eye n ! k) = (\<Sum>j<n. if k = j then 1 else (0 :: real))"
    using k by (simp add: eye_def sum_list_map_upt)
  also have "\<dots> = 1"
    using k by (simp add: sum.delta')
  finally show ?thesis .
qed

text \<open>The rows of the normalized weight matrix are positive.\<close>

lemma normalized_toeplitz_rows:
  assumes "0 < length c" and pos: "\<And>m. m < length c \<Longrightarrow> 0 < c ! m" and k: "k < length c"
  defines "K0 \<equiv> toeplitz c"
  shows "length (mat_mul (diag (map (\<lambda>r. 1 / sum_list r) K0)) K0 ! k) = length c"
    and "\<And>j. j < length c \<Longrightarrow> 0 < mat_mul (diag (map (\<lambda>r. 1 / sum_list r) K0)) K0 ! k ! j"
proof -
  define n where "n = length c"
  have lenK0: "length K0 = n" by (simp add: K0_def toeplitz_def n_def)
  have row: "K0 ! i = map (\<lambda>j. c ! (if j \<le> i then i - j else j - i)) [0..<n]" if "i < n" for i
    using that by (simp add: K0_def toeplitz_def n_def)
  have ncols: "ncols K0 = n"
    using assms(1) by (cases "length c") (simp_all add: K0_def toeplitz_def ncols_def n_def
        upt_conv_Cons del: upt_Suc)
  have entry: "0 < K0 ! i ! j" if "i < n" "j < n" for i j
    using that pos by (simp add: row n_def)
  have total: "0 < sum_list (K0 ! i)" if "i < n" for i
  proof -
    have "sum_list (K0 ! i) = (\<Sum>j<n. c ! (if j \<le> i then i - j else j - i))"
      using that by (simp add: row sum_list_map_upt)
    also have "0 < \<dots>"
      using that pos assms(1) by (intro sum_pos) (auto simp: n_def)
    finally show ?thesis .
  qed
  have K: "mat_mul (diag (map (\<lambda>r. 1 / sum_list r) K0)) K0 =
      map (\<lambda>i. map (\<lambda>j. map (\<lambda>r. 1 / sum_list r) K0 ! i * K0 ! i ! j) [0..<n]) [0..<n]"
    using mat_mul_diag_left [of K0 "map (\<lambda>r. 1 / sum_list r) K0"] by (simp add: lenK0 ncols)
  show "length (mat_mul (diag (map (\<lambda>r. 1 / sum_list r) K0)) K0 ! k) = length c"
    unfolding K using k by (simp add: n_def)
  show "0 < mat_mul (diag (map (\<lambda>r. 1 / sum_list r) K0)) K0 ! k ! j" if "j < length c" for j
    unfolding K using k that entry [of k j] total [of k] by (simp add: n_def lenK0)
qed

text \<open>
  C10. For at least two timepoints, a positive cutoff and a positive TR, the filter
  matrix exists, has one row per timepoint, and maps every constant signal \<open>c\<close> to the
  zero signal, at every timepoint including both ends: the Gaussian weights are positive,
  so every row of the hat matrix sums to 1.
\<close>

theorem fsl_highpass_matrix_constant:
  assumes "2 \<le> n" and "0 < cutoff" and "0 < rt"
  shows "\<exists>F. fsl_highpass_matrix n cutoff rt = Inr F \<and> length F = n \<and>
             mat_vec F (replicate n c) = replicate n 0"
proof -
  define sig2n where "sig2n = (cutoff / rt / sqrt 2)\<^sup>2"
  define kernel1 where "kernel1 =
      map (\<lambda>x. 1 / sqrt (2 * pi * sig2n) * x)
        (map (\<lambda>k. exp (- (real k)\<^sup>2 / (2 * sig2n))) [0..<n])"
  define K where "K = mat_mul (diag (map (\<lambda>r. 1 / sum_list r) (toeplitz kernel1)))
      (toeplitz kernel1)"
  define X where "X = map (\<lambda>i. [1, real i]) [0..<n]"
  define H where "H = map (\<lambda>k. mat_mul (mat_mul X (pinv (mat_mul (diag (K ! k)) X)))
      (diag (K ! k)) ! k) [0..<n]"
  have sig: "0 < sig2n"
    using assms(2,3) by (simp add: sig2n_def)
  have no_failure: "(rt = 0) = False" "((cutoff / rt / sqrt 2)\<^sup>2 = 0) = False"
    using assms(3) sig by (simp_all add: sig2n_def)
  have F: "fsl_highpass_matrix n cutoff rt = Inr (mat_sub (eye n) H)"
    unfolding fsl_highpass_matrix_def Let_def H_def K_def kernel1_def X_def sig2n_def
    by (simp only: no_failure if_False)
  have len1: "length kernel1 = n" by (simp add: kernel1_def)
  have pos1: "0 < kernel1 ! m" if "m < n" for m
    using that sig by (simp add: kernel1_def)
  have n0: "0 < n" using assms(1) by simp
  have Krow: "length (K ! k) = n" "\<And>j. j < n \<Longrightarrow> 0 < K ! k ! j" if "k < n" for k
    using normalized_toeplitz_rows [of kernel1 k] that n0 pos1 by (simp_all add: K_def len1)
  have Hrow: "length (H ! k) = n \<and> sum_list (H ! k) = 1" if "k < n" for k
    using hat_row_sum [OF assms(1) Krow(1) Krow(2) that, of k] that
    by (simp add: H_def X_def)
  have lenH: "length H = n" by (simp add: H_def)
  have "mat_vec (mat_sub (eye n) H) (replicate n c) = replicate n 0"
  proof (rule nth_equalityI)
    show "length (mat_vec (mat_sub (eye n) H) (replicate n c)) = length (replicate n (0::real))"
      by (simp add: mat_vec_def mat_sub_def eye_def lenH)
  next
    fix k assume "k < length (mat_vec (mat_sub (eye n) H) (replicate n c))"
    then have k: "k < n"
      by (simp add: mat_vec_def mat_sub_def eye_def lenH)
    have lenE: "length (eye n ! k) = n" using k by (simp add: eye_def)
    have "mat_sub (eye n) H ! k = map2 (-) (eye n ! k) (H ! k)"
      using k by (simp add: mat_sub_def eye_def lenH)
    moreover have "length (map2 (-) (eye n ! k) (H ! k)) = n"
      using Hrow [OF k] lenE by simp
    moreover have "sum_list (map2 (-) (eye n ! k) (H ! k)) = 0"
      using Hrow [OF k] lenE sum_list_eye_row [OF k] by (simp add: sum_list_map2_minus)
    ultimately have "dot (mat_sub (eye n) H ! k) (replicate n c) = 0"
      by (simp add: dot_replicate)
    then show "mat_vec (mat_sub (eye n) H) (replicate n c) ! k = replicate n 0 ! k"
      using k by (simp add: mat_vec_def mat_sub_def eye_def lenH)
  qed
  moreover have "length (mat_sub (eye n) H) = n"
    by (simp add: mat_sub_def eye_def lenH)
  ultimately show ?thesis using F by blast
qed

theorem fsl_highpass_matrix_constant_witness:
  "(2 :: nat) \<le> 2 \<and> (0 :: real) < 128 \<and> (0 :: real) < 2 \<and>
   (\<exists>F. fsl_highpass_matrix 2 128 2 = Inr F \<and> length F = 2 \<and>
        mat_vec F (replicate 2 5) = replicate 2 0)"
  using fsl_highpass_matrix_constant [of 2 128 2 5] by simp

end
